theory Spec2Isabelle
  imports Complex_Main
begin

section \<open>JavaScript values, strings and objects\<close>

text \<open>
  A JavaScript \<open>number\<close> is modelled as a \<open>real\<close> (no rounding, no NaN), a clock reading
  (\<open>Date.now()\<close>) as an \<open>int\<close> of milliseconds, a string as a \<open>string\<close> whose characters
  are ASCII. An \<open>Error\<close> object is its \<open>name\<close>, \<open>message\<close> and \<open>stack\<close>.
\<close>

record js_error =
  err_name :: string
  err_message :: string
  err_stack :: "string option"

datatype js_value = JStr string | JNum real | JBool bool | JUndefined

text \<open>
  A value that was thrown, or that a promise was rejected with, can be anything. The code
  reads its \<open>name\<close>, \<open>message\<close> and \<open>stack\<close>: for \<open>undefined\<close> and \<open>null\<close> that read throws;
  any other value is given with what the three reads return.
\<close>

datatype js_thrown = ThrownNullish | ThrownValue js_value js_value js_value

text \<open>
  An object literal or \<open>Record<string, any>\<close>: keys in insertion order, no key twice.
  (JavaScript lists integer-like keys first; no key of the code is one.)
\<close>

type_synonym js_object = "(string \<times> js_value) list"

fun obj_set :: "string \<Rightarrow> 'v \<Rightarrow> (string \<times> 'v) list \<Rightarrow> (string \<times> 'v) list" where
  "obj_set k v [] = [(k, v)]"
| "obj_set k v ((k', v') # rest) =
     (if k' = k then (k, v) # rest else (k', v') # obj_set k v rest)"

fun obj_get :: "js_object \<Rightarrow> string \<Rightarrow> js_value" where
  "obj_get [] k = JUndefined"
| "obj_get ((k', v') # rest) k = (if k' = k then v' else obj_get rest k)"

text \<open>
  \<open>table[key]\<close> on an object literal: an own key, a key inherited from
  \<open>Object.prototype\<close> (its member is a function or, for \<open>__proto__\<close>, an object), or nothing.
\<close>

definition objectPrototypeKeys :: "string list" where
  "objectPrototypeKeys =
     [''constructor'', ''hasOwnProperty'', ''isPrototypeOf'', ''propertyIsEnumerable'',
      ''toLocaleString'', ''toString'', ''valueOf'', ''__proto__'',
      ''__defineGetter__'', ''__defineSetter__'', ''__lookupGetter__'', ''__lookupSetter__'']"

datatype 'v lookup = Own 'v | Inherited string | Absent

definition obj_lookup :: "(string \<times> 'v) list \<Rightarrow> string \<Rightarrow> 'v lookup" where
  "obj_lookup table k =
     (case map_of table k of
        Some v \<Rightarrow> Own v
      | None \<Rightarrow> if k \<in> set objectPrototypeKeys then Inherited k else Absent)"

text \<open>\<open>{...base, ...ext}\<close>: the keys of \<open>ext\<close> are written over \<open>base\<close>, in order.\<close>

definition obj_spread :: "(string \<times> 'v) list \<Rightarrow> (string \<times> 'v) list \<Rightarrow> (string \<times> 'v) list" where
  "obj_spread base ext = fold (\<lambda>(k, v). obj_set k v) ext base"

text \<open>Spreading an optional object: \<open>...undefined\<close> adds nothing.\<close>

definition obj_spread_opt :: "js_object \<Rightarrow> js_object option \<Rightarrow> js_object" where
  "obj_spread_opt base ext = (case ext of None \<Rightarrow> base | Some e \<Rightarrow> obj_spread base e)"

fun truthy :: "js_value \<Rightarrow> bool" where
  "truthy (JStr s) = (s \<noteq> [])"
| "truthy (JNum r) = (r \<noteq> 0)"
| "truthy (JBool b) = b"
| "truthy JUndefined = False"

text \<open>\<open>a || b\<close> on values.\<close>

definition js_or :: "js_value \<Rightarrow> js_value \<Rightarrow> js_value" where
  "js_or a b = (if truthy a then a else b)"

text \<open>
  \<open>String(v)\<close>, as \<open>RegExp.prototype.test\<close> applies it to its argument. The decimal text of
  a number is the runtime's; it is the parameter \<open>numstr\<close>.
\<close>

fun js_to_string :: "(real \<Rightarrow> string) \<Rightarrow> js_value \<Rightarrow> string" where
  "js_to_string numstr (JStr s) = s"
| "js_to_string numstr (JNum r) = numstr r"
| "js_to_string numstr (JBool b) = (if b then ''true'' else ''false'')"
| "js_to_string numstr JUndefined = ''undefined''"

fun startsWith :: "string \<Rightarrow> string \<Rightarrow> bool" where
  "startsWith s [] = True"
| "startsWith [] (p # ps) = False"
| "startsWith (c # cs) (p # ps) = (c = p \<and> startsWith cs ps)"

text \<open>\<open>s.includes(sub)\<close> of JavaScript.\<close>

fun str_includes :: "string \<Rightarrow> string \<Rightarrow> bool" where
  "str_includes [] sub = (sub = [])"
| "str_includes (c # cs) sub = (startsWith (c # cs) sub \<or> str_includes cs sub)"

definition toLowerCase_char :: "char \<Rightarrow> char" where
  "toLowerCase_char c =
     (let n = (of_char c :: nat) in if 65 \<le> n \<and> n \<le> 90 then char_of (n + 32) else c)"

definition toLowerCase :: "string \<Rightarrow> string" where
  "toLowerCase s = map toLowerCase_char s"

text \<open>Decimal text of an integer, as a template literal prints it.\<close>

fun show_nat :: "nat \<Rightarrow> string" where
  "show_nat n =
     (if n < 10 then [char_of (48 + n)] else show_nat (n div 10) @ [char_of (48 + n mod 10)])"

definition show_int :: "int \<Rightarrow> string" where
  "show_int i = (if i < 0 then CHR ''-'' # show_nat (nat (- i)) else show_nat (nat i))"

fun join :: "string \<Rightarrow> string list \<Rightarrow> string" where
  "join sep [] = []"
| "join sep [x] = x"
| "join sep (x # y # rest) = x @ sep @ join sep (y # rest)"

subsection \<open>The regular expressions of the filter\<close>

text \<open>
  The patterns of \<open>SmartFilter.ts\<close> have three shapes: a literal anywhere in the text
  (\<open>/favicon/\<close>), a literal anywhere, ignoring case (\<open>/bot/i\<close>), and a literal followed by
  \<open>?\<close> or by the end of the text (\<open>/\.css(\?|$)/\<close>).
\<close>

datatype pattern = Lit string | LitI string | LitEnd string

fun literalThenEnd :: "string \<Rightarrow> string \<Rightarrow> bool" where
  "literalThenEnd [] lit =
     (lit = [])"
| "literalThenEnd (c # cs) lit =
     ((startsWith (c # cs) lit \<and>
        (case drop (length lit) (c # cs) of [] \<Rightarrow> True | d # _ \<Rightarrow> d = CHR ''?''))
      \<or> literalThenEnd cs lit)"

fun test :: "pattern \<Rightarrow> string \<Rightarrow> bool" where
  "test (Lit l) s = str_includes s l"
| "test (LitI l) s = str_includes (toLowerCase s) (toLowerCase l)"
| "test (LitEnd l) s = literalThenEnd s l"

section \<open>Data model (types.ts)\<close>

datatype device_type = Mobile | Tablet | Desktop
datatype priority = PriorityCritical | PriorityHigh | PriorityMedium | PriorityLow
datatype event_type = EvSpan | EvMetric | EvLog | EvError
datatype severity = SevInfo | SevWarn | SevError | SevCritical

text \<open>
  \<open>businessImpact\<close> is one of four texts; \<open>InheritedMember k\<close> is the member \<open>k\<close> of
  \<open>Object.prototype\<close>, which the lookup tables of the instrumentor return for such a key.
\<close>

datatype business_impact =
  Revenue | Engagement | Performance | Reliability | InheritedMember string

record UserContext =
  uc_userId :: "string option"
  uc_sessionId :: string
  uc_userSegment :: string
  uc_isAuthenticated :: bool
  uc_deviceType :: device_type
  uc_customAttributes :: "js_object option"

record DomainConfig =
  dc_name :: string
  dc_priority :: priority
  dc_slaTarget :: real
  dc_errorThreshold :: real
  dc_features :: "string list"
  dc_customAttributes :: "js_object option"

record BusinessContext =
  bc_domain :: string
  bc_feature :: "string option"
  bc_userJourney :: "string option"
  bc_businessImpact :: business_impact
  bc_customMetrics :: "(string \<times> real) list option"

record TelemetryEvent =
  ev_id :: string
  ev_timestamp :: string
  ev_domain :: string
  ev_eventType :: event_type
  ev_name :: string
  ev_attributes :: js_object
  ev_businessContext :: BusinessContext
  ev_severity :: "severity option"

type_synonym FilterFunction = "TelemetryEvent \<Rightarrow> UserContext \<Rightarrow> bool"

record FilterConfig =
  fc_enableBotDetection :: bool
  fc_domainWhitelist :: "string list option"
  fc_errorThreshold :: real
  fc_samplingRate :: real
  fc_excludeExtensions :: bool
  fc_excludeThirdPartyErrors :: bool
  fc_customFilters :: "FilterFunction list option"

section \<open>The browser environment\<close>

text \<open>
  The globals the code reads. \<open>window\<close>, \<open>navigator\<close> and \<open>screen\<close> may be missing
  (the code itself tests \<open>typeof window === 'undefined'\<close>); reading a property of a
  missing global throws, which is the error \<open>MissingGlobal\<close>.

  A field that the code only tests for truth is a \<open>bool\<close>: \<open>navigator.webdriver\<close>,
  \<open>window.callPhantom\<close>, \<open>window._phantom\<close>, the two Selenium properties of
  \<open>window.document\<close>, and \<open>'ontouchstart' in window\<close>. \<open>win_chrome_runtime\<close> is \<open>None\<close> when
  \<open>window.chrome\<close> is missing and otherwise tells whether \<open>window.chrome.runtime\<close> is there.
  \<open>nav_permissions_query_text\<close> is the text of \<open>navigator.permissions?.query?.toString()\<close>,
  \<open>None\<close> when the chain ends at a missing property. A dimension is \<open>None\<close> when the
  property is missing. \<open>env_numstr\<close> is the runtime's decimal text of a number.
\<close>

record Navigator =
  nav_userAgent :: "string option"
  nav_webdriver :: bool
  nav_permissions_query_text :: "string option"

record Window =
  win_chrome_runtime :: "bool option"
  win_callPhantom :: bool
  win_phantom :: bool
  win_outerHeight :: "int option"
  win_outerWidth :: "int option"
  win_innerHeight :: "int option"
  win_innerWidth :: "int option"
  win_ontouchstart :: bool
  win_document_cdc :: bool
  win_document_chrome_asyncScriptInfo :: bool
  win_location_hostname :: string

record Screen =
  scr_width :: "int option"
  scr_height :: "int option"

record Env =
  env_window :: "Window option"
  env_navigator :: "Navigator option"
  env_screen :: "Screen option"
  env_timezoneOffset :: int
  env_numstr :: "real \<Rightarrow> string"

text \<open>
  What a method can throw: the error of a missing global, a \<open>TypeError\<close> of the runtime
  (the text says what failed), an \<open>Error\<close> the code creates, or the value a callback threw.
\<close>

datatype js_exn = MissingGlobal string | TypeError string | Thrown js_error | Rethrown js_thrown

section \<open>Filter (core/SmartFilter.ts)\<close>

record Filter =
  f_config :: FilterConfig
  f_botPatterns :: "pattern list"
  f_extensionPatterns :: "pattern list"
  f_noisePatterns :: "pattern list"

text \<open>The three pattern lists \<open>initializePatterns\<close> assigns.\<close>

definition botPatterns :: "pattern list" where
  "botPatterns =
     [LitI ''bot'', LitI ''crawler'', LitI ''spider'', LitI ''scraper'',
      LitI ''phantom'', LitI ''headless'', LitI ''selenium'',
      LitI ''puppeteer'', LitI ''playwright'',
      LitI ''googlebot'', LitI ''bingbot'', LitI ''slurp'',
      LitI ''facebookexternalhit'', LitI ''twitterbot'',
      LitI ''linkedinbot'', LitI ''whatsapp'', LitI ''telegrambot'']"

definition extensionPatterns :: "pattern list" where
  "extensionPatterns =
     [LitI ''chrome-extension:'', LitI ''moz-extension:'', LitI ''safari-extension:'',
      LitI ''extension/'', LitI ''addon'', LitI ''greasemonkey'',
      LitI ''tampermonkey'', LitI ''adblock'', LitI ''ublock'',
      LitI ''ghostery'', LitI ''privacy'', LitI ''disconnect'']"

definition noisePatterns :: "pattern list" where
  "noisePatterns =
     [LitEnd ''.css'', LitEnd ''.js'', LitEnd ''.png'',
      LitEnd ''.jpg'', LitEnd ''.gif'', LitEnd ''.svg'',
      LitEnd ''.woff'', LitEnd ''.ttf'', LitEnd ''.ico'',
      Lit ''favicon'', Lit ''manifest.json'', Lit ''robots.txt'',
      Lit ''sw.js'', Lit ''service-worker'', Lit ''workbox'']"

definition initializePatterns :: "Filter \<Rightarrow> Filter" where
  "initializePatterns f = f
     \<lparr> f_botPatterns := botPatterns,
       f_extensionPatterns := extensionPatterns,
       f_noisePatterns := noisePatterns \<rparr>"

definition new_Filter :: "FilterConfig \<Rightarrow> Filter" where
  "new_Filter config =
     initializePatterns
       \<lparr> f_config = config, f_botPatterns = [], f_extensionPatterns = [], f_noisePatterns = [] \<rparr>"

text \<open>\<open>!n\<close> for an optional number: missing or zero.\<close>

definition falsy_num :: "int option \<Rightarrow> bool" where
  "falsy_num n = (case n of None \<Rightarrow> True | Some v \<Rightarrow> v = 0)"

definition hasHeadlessIndicators :: "Env \<Rightarrow> js_exn + bool" where
  "hasHeadlessIndicators env =
     (case env_window env of
        None \<Rightarrow> Inr False
      | Some w \<Rightarrow>
          if win_chrome_runtime w = Some False then Inr True
          else if win_callPhantom w \<or> win_phantom w then Inr True
          else if falsy_num (win_outerHeight w) \<or> falsy_num (win_outerWidth w) then Inr True
          else (case env_navigator env of
                  None \<Rightarrow> Inl (MissingGlobal ''navigator'')
                | Some n \<Rightarrow> if nav_webdriver n then Inr True else Inr False))"

definition hasAutomationIndicators :: "Env \<Rightarrow> js_exn + bool" where
  "hasAutomationIndicators env =
     (case env_window env of
        None \<Rightarrow> Inr False
      | Some w \<Rightarrow>
          if win_document_cdc w then Inr True
          else if win_document_chrome_asyncScriptInfo w then Inr True
          else (case env_navigator env of
                  None \<Rightarrow> Inl (MissingGlobal ''navigator'')
                | Some n \<Rightarrow>
                    (case nav_permissions_query_text n of
                       None \<Rightarrow> Inr False
                     | Some t \<Rightarrow> if str_includes t ''NotSupportedError'' then Inr True else Inr False)))"

definition hasUnusualSessionCharacteristics :: "Env \<Rightarrow> UserContext \<Rightarrow> js_exn + bool" where
  "hasUnusualSessionCharacteristics env context =
     (case env_screen env of
        None \<Rightarrow> Inl (MissingGlobal ''screen'')
      | Some s \<Rightarrow> if scr_width s = Some 0 \<or> scr_height s = Some 0 then Inr True else Inr False)"

definition isBotSession :: "Filter \<Rightarrow> Env \<Rightarrow> UserContext \<Rightarrow> js_exn + bool" where
  "isBotSession f env context =
     (case env_navigator env of
        None \<Rightarrow> Inl (MissingGlobal ''navigator'')
      | Some n \<Rightarrow>
          (let userAgent = (case nav_userAgent n of None \<Rightarrow> [] | Some u \<Rightarrow> u) in
           if list_ex (\<lambda>p. test p userAgent) (f_botPatterns f) then Inr True
           else (case hasHeadlessIndicators env of
                   Inl e \<Rightarrow> Inl e
                 | Inr True \<Rightarrow> Inr True
                 | Inr False \<Rightarrow>
                     (case hasAutomationIndicators env of
                        Inl e \<Rightarrow> Inl e
                      | Inr True \<Rightarrow> Inr True
                      | Inr False \<Rightarrow>
                          (case hasUnusualSessionCharacteristics env context of
                             Inl e \<Rightarrow> Inl e
                           | Inr True \<Rightarrow> Inr True
                           | Inr False \<Rightarrow> Inr False)))))"

definition isDomainAllowed :: "Filter \<Rightarrow> Env \<Rightarrow> TelemetryEvent \<Rightarrow> js_exn + bool" where
  "isDomainAllowed f env event =
     (case fc_domainWhitelist (f_config f) of
        None \<Rightarrow> Inr True
      | Some wl \<Rightarrow>
          if length wl = 0 then Inr True
          else (case env_window env of
                  None \<Rightarrow> Inl (MissingGlobal ''window'')
                | Some w \<Rightarrow> Inr (win_location_hostname w \<in> set wl)))"

definition event_url :: "TelemetryEvent \<Rightarrow> js_value" where
  "event_url event =
     js_or (js_or (obj_get (ev_attributes event) ''http.url'')
                  (obj_get (ev_attributes event) ''url''))
           (JStr [])"

definition isNoiseEvent :: "Filter \<Rightarrow> Env \<Rightarrow> TelemetryEvent \<Rightarrow> bool" where
  "isNoiseEvent f env event =
     (let url = event_url event in
      list_ex (\<lambda>p. test p (js_to_string (env_numstr env) url)) (f_noisePatterns f))"

definition isExtensionEvent :: "Filter \<Rightarrow> Env \<Rightarrow> TelemetryEvent \<Rightarrow> bool" where
  "isExtensionEvent f env event =
     (let url = event_url event;
          stack = js_or (obj_get (ev_attributes event) ''error.stack'') (JStr [])
      in list_ex (\<lambda>p. test p (js_to_string (env_numstr env) url)
                     \<or> test p (js_to_string (env_numstr env) stack))
           (f_extensionPatterns f))"

text \<open>
  The loop over the custom filters: the first one that says no ends it. A custom filter is
  the caller's function; it is taken to return.
\<close>

fun customFiltersPass :: "FilterFunction list \<Rightarrow> TelemetryEvent \<Rightarrow> UserContext \<Rightarrow> bool" where
  "customFiltersPass [] event context = True"
| "customFiltersPass (flt # rest) event context =
     (if \<not> flt event context then False else customFiltersPass rest event context)"

text \<open>
  \<open>shouldProcess\<close>. The value of \<open>Math.random()\<close> is the parameter \<open>draw\<close>, a number in
  \<open>[0, 1)\<close>; it is read only when every earlier rule has passed.
\<close>

definition shouldProcess ::
    "Filter \<Rightarrow> Env \<Rightarrow> real \<Rightarrow> TelemetryEvent \<Rightarrow> UserContext \<Rightarrow> js_exn + bool" where
  "shouldProcess f env draw event context =
     (if ev_severity event = Some SevError \<or> ev_severity event = Some SevCritical then Inr True
      else
        (case (if fc_enableBotDetection (f_config f) then isBotSession f env context
               else Inr False) of
           Inl e \<Rightarrow> Inl e
         | Inr True \<Rightarrow> Inr False
         | Inr False \<Rightarrow>
             (case isDomainAllowed f env event of
                Inl e \<Rightarrow> Inl e
              | Inr False \<Rightarrow> Inr False
              | Inr True \<Rightarrow>
                  if isNoiseEvent f env event then Inr False
                  else if fc_excludeExtensions (f_config f) \<and> isExtensionEvent f env event
                    then Inr False
                  else if (case fc_customFilters (f_config f) of
                             None \<Rightarrow> False
                           | Some fs \<Rightarrow> \<not> customFiltersPass fs event context)
                    then Inr False
                  else if draw > fc_samplingRate (f_config f) then Inr False
                  else Inr True)))"

text \<open>The pattern \<open>/Mobi|Android/i\<close>.\<close>

definition mobilePattern :: "string \<Rightarrow> bool" where
  "mobilePattern ua = (test (LitI ''Mobi'') ua \<or> test (LitI ''Android'') ua)"

definition createDefaultContext :: "Env \<Rightarrow> int \<Rightarrow> js_exn + UserContext" where
  "createDefaultContext env now =
     (case env_navigator env of
        None \<Rightarrow> Inl (MissingGlobal ''navigator'')
      | Some n \<Rightarrow>
          Inr \<lparr> uc_userId = None,
                uc_sessionId = ''session_'' @ show_int now,
                uc_userSegment = ''anonymous'',
                uc_isAuthenticated = False,
                uc_deviceType =
                  (if mobilePattern (case nav_userAgent n of None \<Rightarrow> ''undefined'' | Some u \<Rightarrow> u)
                   then Mobile else Desktop),
                uc_customAttributes = None \<rparr>)"

definition positive_num :: "int option \<Rightarrow> bool" where
  "positive_num n = (case n of None \<Rightarrow> False | Some v \<Rightarrow> v > 0)"

definition hasRealUserIndicators :: "Env \<Rightarrow> Window \<Rightarrow> bool" where
  "hasRealUserIndicators env w =
     (if win_ontouchstart w then True
      else if positive_num (win_innerWidth w) \<and> positive_num (win_innerHeight w) then True
      else if env_timezoneOffset env \<ge> - 720 \<and> env_timezoneOffset env \<le> 720 then True
      else True)"

text \<open>\<open>isRealUserSession(context?)\<close>; \<open>now\<close> is the clock, read by \<open>createDefaultContext\<close>.\<close>

definition isRealUserSession :: "Filter \<Rightarrow> Env \<Rightarrow> int \<Rightarrow> UserContext option \<Rightarrow> js_exn + bool" where
  "isRealUserSession f env now context =
     (case env_window env of
        None \<Rightarrow> Inr False
      | Some w \<Rightarrow>
          (case (case context of Some c \<Rightarrow> Inr c | None \<Rightarrow> createDefaultContext env now) of
             Inl e \<Rightarrow> Inl e
           | Inr c \<Rightarrow>
               (case isBotSession f env c of
                  Inl e \<Rightarrow> Inl e
                | Inr True \<Rightarrow> Inr False
                | Inr False \<Rightarrow> Inr (hasRealUserIndicators env w))))"

definition addCustomFilter :: "FilterFunction \<Rightarrow> Filter \<Rightarrow> Filter" where
  "addCustomFilter flt f =
     f \<lparr> f_config := (f_config f)
           \<lparr> fc_customFilters :=
               Some ((case fc_customFilters (f_config f) of None \<Rightarrow> [] | Some fs \<Rightarrow> fs) @ [flt]) \<rparr> \<rparr>"

record FilterConfigView =
  fv_enableBotDetection :: bool
  fv_domainWhitelist :: "string list option"
  fv_excludeExtensions :: bool

record FilterStats =
  fs_botPatternsCount :: nat
  fs_extensionPatternsCount :: nat
  fs_noisePatternsCount :: nat
  fs_samplingRate :: real
  fs_config :: FilterConfigView

definition filter_getStats :: "Filter \<Rightarrow> FilterStats" where
  "filter_getStats f =
     \<lparr> fs_botPatternsCount = length (f_botPatterns f),
       fs_extensionPatternsCount = length (f_extensionPatterns f),
       fs_noisePatternsCount = length (f_noisePatterns f),
       fs_samplingRate = fc_samplingRate (f_config f),
       fs_config =
         \<lparr> fv_enableBotDetection = fc_enableBotDetection (f_config f),
           fv_domainWhitelist = fc_domainWhitelist (f_config f),
           fv_excludeExtensions = fc_excludeExtensions (f_config f) \<rparr> \<rparr>"

section \<open>DomainInstrumentor (core/DomainInstrumentor.ts)\<close>

text \<open>
  An instrumentor holds its domain, the user context it was built with and, optionally, the
  callback \<open>onEvent\<close>. The instrumentor records whether it has the callback; every operation
  returns the list of events it has handed to the callback, in order. The callback is the
  caller's function and may throw: how each of its invocations settles is part of what the
  call reads from the outside (\<open>w_onEvent\<close> below). The calls into OpenTelemetry (span,
  counters, histograms) are returned as a trace; they are taken not to throw.
\<close>

record DomainInstrumentor =
  di_domain :: DomainConfig
  di_userContext :: UserContext
  di_hasOnEvent :: bool

record ApiCallContext =
  acc_endpoint :: "string option"
  acc_method :: "string option"
  acc_journeyName :: "string option"
  acc_stepName :: "string option"
  acc_customAttributes :: "js_object option"

record InstrumentationResult =
  ir_success :: bool
  ir_duration :: int
  ir_error :: "js_thrown option"
  ir_customMetrics :: "(string \<times> real) list option"

datatype otel_op =
    StartSpan string
  | SpanSetAttributes js_object
  | SpanRecordException js_thrown
  | SpanSetStatus int js_value
  | SpanEnd
  | CounterAdd string real js_object
  | HistogramRecord string real js_object

text \<open>
  What one call reads from the outside. The clock: at its start (\<open>w_startTime\<close>), when the
  awaited operation has settled (\<open>w_endTime\<close>), and in the \<open>catch\<close> block when it is another
  statement of the \<open>try\<close> that threw (\<open>w_catchTime\<close>). The two draws of \<open>Math.random()\<close> in
  \<open>executeApiCall\<close>. The stack text of an \<open>Error\<close> created during the call. For the
  \<open>n\<close>-th call of \<open>emitTelemetryEvent\<close> (from 0): the id and the timestamp it gives the
  event, and how the callback settles on it (\<open>None\<close>: it returns; \<open>Some t\<close>: it throws \<open>t\<close>).
\<close>

record CallWorld =
  w_startTime :: int
  w_endTime :: int
  w_catchTime :: int
  w_jitterDraw :: real
  w_errorDraw :: real
  w_errorStack :: "string option"
  w_eventId :: "nat \<Rightarrow> string"
  w_eventTimestamp :: "nat \<Rightarrow> string"
  w_onEvent :: "nat \<Rightarrow> js_thrown option"

text \<open>
  What a call does: the promise resolves with a result (\<open>Inr\<close>) or rejects with an
  exception (\<open>Inl\<close>); the events handed to the callback; the trace.
\<close>

record CallOutput =
  out_result :: "js_exn + InstrumentationResult"
  out_events :: "TelemetryEvent list"
  out_trace :: "otel_op list"

record ApiResponse =
  resp_status :: int
  resp_success :: bool
  resp_data :: js_object

fun priority_text :: "priority \<Rightarrow> string" where
  "priority_text PriorityCritical = ''critical''"
| "priority_text PriorityHigh = ''high''"
| "priority_text PriorityMedium = ''medium''"
| "priority_text PriorityLow = ''low''"

fun device_text :: "device_type \<Rightarrow> string" where
  "device_text Mobile = ''mobile''"
| "device_text Tablet = ''tablet''"
| "device_text Desktop = ''desktop''"

text \<open>
  \<open>executeApiCall\<close>: the delay it waits for, and then a thrown \<open>Error\<close> or the response.
\<close>

definition executeApiCall ::
    "DomainInstrumentor \<Rightarrow> string \<Rightarrow> string \<Rightarrow> CallWorld \<Rightarrow> real \<times> (js_error + ApiResponse)" where
  "executeApiCall inst endpoint method w =
     (let baseLatency = (if dc_priority (di_domain inst) = PriorityCritical then 100 else 200);
          jitter = w_jitterDraw w * 300;
          duration = baseLatency + jitter
      in (duration,
          if w_errorDraw w < dc_errorThreshold (di_domain inst)
          then Inl \<lparr> err_name = ''Error'',
                     err_message = ''API call failed: '' @ endpoint,
                     err_stack = w_errorStack w \<rparr>
          else Inr \<lparr> resp_status = 200, resp_success = True,
                     resp_data = [(''message'', JStr ''Success'')] \<rparr>))"

text \<open>
  The three tables are object literals read with \<open>table[key]\<close>: a key of
  \<open>Object.prototype\<close> finds the inherited member, which is truthy, so \<open>|| default\<close> keeps it.
\<close>

definition getApiBusinessImpact :: "string \<Rightarrow> business_impact" where
  "getApiBusinessImpact apiName =
     (case obj_lookup
        [(''login'', Engagement),
         (''register'', Engagement),
         (''checkout'', Revenue),
         (''payment'', Revenue),
         (''search'', Engagement),
         (''cart'', Revenue)] apiName of
        Own i \<Rightarrow> i
      | Inherited k \<Rightarrow> InheritedMember k
      | Absent \<Rightarrow> Performance)"

definition getJourneyBusinessImpact :: "string \<Rightarrow> business_impact" where
  "getJourneyBusinessImpact journeyName =
     (case obj_lookup
        [(''user_login_flow'', Engagement),
         (''purchase_flow'', Revenue),
         (''product_discovery'', Engagement)] journeyName of
        Own i \<Rightarrow> i
      | Inherited k \<Rightarrow> InheritedMember k
      | Absent \<Rightarrow> Engagement)"

definition getMetricBusinessImpact :: "string \<Rightarrow> business_impact" where
  "getMetricBusinessImpact metricName =
     (if str_includes metricName ''revenue'' \<or> str_includes metricName ''purchase'' then Revenue
      else if str_includes metricName ''login'' \<or> str_includes metricName ''engagement''
        then Engagement
      else if str_includes metricName ''latency'' \<or> str_includes metricName ''performance''
        then Performance
      else Reliability)"

text \<open>
  \<open>getSlaViolationSeverity\<close>. JavaScript divides by zero without an error: the ratio is
  then \<open>Infinity\<close> for a positive duration, and \<open>-Infinity\<close> or \<open>NaN\<close> otherwise, which no
  comparison with \<open>>\<close> accepts.
\<close>

definition getSlaViolationSeverity :: "DomainInstrumentor \<Rightarrow> int \<Rightarrow> string" where
  "getSlaViolationSeverity inst duration =
     (if dc_slaTarget (di_domain inst) = 0
      then (if duration > 0 then ''critical'' else ''low'')
      else
        (let ratio = real_of_int duration / dc_slaTarget (di_domain inst) in
         if ratio > 3 then ''critical''
         else if ratio > 2 then ''high''
         else if ratio > 1.5 then ''medium''
         else ''low''))"

fun indexOf :: "'a list \<Rightarrow> 'a \<Rightarrow> int" where
  "indexOf [] x = - 1"
| "indexOf (y # ys) x =
     (if y = x then 0 else (let i = indexOf ys x in if i < 0 then - 1 else i + 1))"

text \<open>
  \<open>getStepNumber\<close>. For a journey name that is a key of \<open>Object.prototype\<close>, \<open>steps\<close> is the
  inherited member, which has no \<open>indexOf\<close>: calling it throws a \<open>TypeError\<close>.
\<close>

definition getStepNumber :: "string \<Rightarrow> string \<Rightarrow> js_exn + int" where
  "getStepNumber journeyName stepName =
     (case obj_lookup
        [(''user_login_flow'',
            [''load_login_page'', ''enter_credentials'', ''submit_login'',
             ''redirect_dashboard'']),
         (''purchase_flow'',
            [''add_to_cart'', ''view_cart'', ''enter_shipping'', ''select_payment'',
             ''complete_purchase'']),
         (''product_discovery'',
            [''search_query'', ''view_results'', ''filter_results'', ''select_product''])]
        journeyName of
        Own steps \<Rightarrow> Inr (indexOf steps stepName + 1)
      | Inherited k \<Rightarrow> Inl (TypeError ''steps.indexOf is not a function'')
      | Absent \<Rightarrow> Inr (indexOf [] stepName + 1))"

definition createBusinessContext ::
    "DomainInstrumentor \<Rightarrow> string \<Rightarrow> ApiCallContext \<Rightarrow> BusinessContext" where
  "createBusinessContext inst apiName context =
     \<lparr> bc_domain = dc_name (di_domain inst),
       bc_feature = Some apiName,
       bc_userJourney = acc_journeyName context,
       bc_businessImpact = getApiBusinessImpact apiName,
       bc_customMetrics = None \<rparr>"

text \<open>
  The argument of \<open>emitTelemetryEvent\<close>: every call site gives these five fields, which
  replace the defaults; \<open>id\<close>, \<open>timestamp\<close> and \<open>domain\<close> keep theirs.
\<close>

record EventData =
  ed_eventType :: event_type
  ed_name :: string
  ed_attributes :: js_object
  ed_businessContext :: BusinessContext
  ed_severity :: "severity option"

text \<open>
  \<open>emitTelemetryEvent\<close>, called for the \<open>n\<close>-th time in the call: the events handed to the
  callback (one, or none without a callback) and what the callback threw, if it threw.
\<close>

definition emitTelemetryEvent ::
    "DomainInstrumentor \<Rightarrow> CallWorld \<Rightarrow> nat \<Rightarrow> EventData \<Rightarrow>
       TelemetryEvent list \<times> js_thrown option" where
  "emitTelemetryEvent inst w n eventData =
     (if di_hasOnEvent inst
      then ([\<lparr> ev_id = w_eventId w n,
               ev_timestamp = w_eventTimestamp w n,
               ev_domain = dc_name (di_domain inst),
               ev_eventType = ed_eventType eventData,
               ev_name = ed_name eventData,
               ev_attributes = ed_attributes eventData,
               ev_businessContext = ed_businessContext eventData,
               ev_severity = ed_severity eventData \<rparr>],
            w_onEvent w n)
      else ([], None))"

definition stack_value :: "js_error \<Rightarrow> js_value" where
  "stack_value error = (case err_stack error of None \<Rightarrow> JUndefined | Some s \<Rightarrow> JStr s)"

text \<open>An \<open>Error\<close> object as a thrown value.\<close>

definition error_thrown :: "js_error \<Rightarrow> js_thrown" where
  "error_thrown error =
     ThrownValue (JStr (err_name error)) (JStr (err_message error)) (stack_value error)"

text \<open>An exception of the runtime, caught: the \<open>Error\<close> object the \<open>catch\<close> block sees.\<close>

fun exn_thrown :: "CallWorld \<Rightarrow> js_exn \<Rightarrow> js_thrown" where
  "exn_thrown w (TypeError m) =
     ThrownValue (JStr ''TypeError'') (JStr m)
       (case w_errorStack w of None \<Rightarrow> JUndefined | Some s \<Rightarrow> JStr s)"
| "exn_thrown w (MissingGlobal g) =
     ThrownValue (JStr ''ReferenceError'') (JStr (g @ '' is not defined''))
       (case w_errorStack w of None \<Rightarrow> JUndefined | Some s \<Rightarrow> JStr s)"
| "exn_thrown w (Thrown e) = error_thrown e"
| "exn_thrown w (Rethrown t) = t"

definition emptyApiCallContext :: ApiCallContext where
  "emptyApiCallContext =
     \<lparr> acc_endpoint = None, acc_method = None, acc_journeyName = None, acc_stepName = None,
       acc_customAttributes = None \<rparr>"

definition apiCallAttributes ::
    "DomainInstrumentor \<Rightarrow> string \<Rightarrow> string \<Rightarrow> string \<Rightarrow> ApiCallContext \<Rightarrow> js_object" where
  "apiCallAttributes inst name endpoint method context =
     obj_spread_opt
       (obj_spread_opt
          (obj_spread
             [(''domain.name'', JStr (dc_name (di_domain inst))),
              (''domain.priority'', JStr (priority_text (dc_priority (di_domain inst)))),
              (''domain.sla_target_ms'', JNum (dc_slaTarget (di_domain inst))),
              (''domain.error_threshold'', JNum (dc_errorThreshold (di_domain inst))),
              (''api.name'', JStr name),
              (''http.method'', JStr method),
              (''http.url'', JStr endpoint),
              (''user.session_id'', JStr (uc_sessionId (di_userContext inst))),
              (''user.segment'', JStr (uc_userSegment (di_userContext inst))),
              (''user.authenticated'', JBool (uc_isAuthenticated (di_userContext inst))),
              (''user.device_type'', JStr (device_text (uc_deviceType (di_userContext inst))))]
             (case acc_journeyName context of
                None \<Rightarrow> []
              | Some j \<Rightarrow>
                  if j = [] then []
                  else [(''journey.name'', JStr j),
                        (''journey.step'',
                           JStr (case acc_stepName context of
                                   None \<Rightarrow> ''unknown''
                                 | Some s \<Rightarrow> if s = [] then ''unknown'' else s))]))
          (acc_customAttributes context))
       (dc_customAttributes (di_domain inst))"

text \<open>
  The \<open>catch\<close> block of \<open>instrumentApiCall\<close>, entered with the caught value, the duration it
  has computed, and the events and the trace of the \<open>try\<close> so far; \<open>n\<close> counts the calls of
  \<open>emitTelemetryEvent\<close> so far. Reading \<open>error.message\<close> of \<open>undefined\<close> or \<open>null\<close> throws,
  and so may the callback: the call then rejects. \<open>finally\<close> ends the span in every case.
\<close>

definition instrumentApiCall_catch ::
    "DomainInstrumentor \<Rightarrow> string \<Rightarrow> ApiCallContext \<Rightarrow> CallWorld \<Rightarrow> nat \<Rightarrow> js_thrown \<Rightarrow> int \<Rightarrow>
       TelemetryEvent list \<Rightarrow> otel_op list \<Rightarrow> CallOutput" where
  "instrumentApiCall_catch inst name context w n error duration events trace =
     (case error of
        ThrownNullish \<Rightarrow>
          \<lparr> out_result = Inl (TypeError ''error.message of undefined or null''),
            out_events = events,
            out_trace = trace @ [SpanRecordException error, SpanEnd] \<rparr>
      | ThrownValue error_name error_message error_stack \<Rightarrow>
          (case emitTelemetryEvent inst w n
                  \<lparr> ed_eventType = EvError,
                    ed_name = (dc_name (di_domain inst) @ ''.'' @ name) @ ''_error'',
                    ed_attributes =
                      [(''error.type'', error_name),
                       (''error.message'', error_message),
                       (''error.stack'', error_stack)],
                    ed_businessContext = createBusinessContext inst name context,
                    ed_severity = Some SevError \<rparr> of
             (emitted, thrown) \<Rightarrow>
               \<lparr> out_result =
                   (case thrown of
                      Some t \<Rightarrow> Inl (Rethrown t)
                    | None \<Rightarrow>
                        Inr \<lparr> ir_success = False,
                              ir_duration = duration,
                              ir_error = Some error,
                              ir_customMetrics = Some [(''error_occurred'', 1)] \<rparr>),
                 out_events = events @ emitted,
                 out_trace =
                   trace @
                   [SpanRecordException error,
                    SpanSetStatus 2 error_message,
                    CounterAdd ''errors'' 1
                      [(''domain'', JStr (dc_name (di_domain inst))),
                       (''api_name'', JStr name),
                       (''error_type'', error_name),
                       (''user_segment'', JStr (uc_userSegment (di_userContext inst)))],
                    SpanEnd] \<rparr>))"

definition instrumentApiCall ::
    "DomainInstrumentor \<Rightarrow> string \<Rightarrow> string \<Rightarrow> string option \<Rightarrow> ApiCallContext option \<Rightarrow>
       CallWorld \<Rightarrow> CallOutput" where
  "instrumentApiCall inst name endpoint method_arg context_arg w =
     (let method = (case method_arg of None \<Rightarrow> ''GET'' | Some m \<Rightarrow> m);
          context = (case context_arg of None \<Rightarrow> emptyApiCallContext | Some c \<Rightarrow> c);
          domain = di_domain inst;
          spanName = dc_name domain @ ''.'' @ name;
          startTime = w_startTime w;
          attributes = apiCallAttributes inst name endpoint method context
      in case snd (executeApiCall inst endpoint method w) of
           Inr response \<Rightarrow>
             (let duration = w_endTime w - startTime;
                  slaViolated = (real_of_int duration > dc_slaTarget domain);
                  trace =
                    [StartSpan spanName,
                     SpanSetAttributes attributes,
                     CounterAdd ''api_calls'' 1
                       [(''domain'', JStr (dc_name domain)),
                        (''api_name'', JStr name),
                        (''method'', JStr method),
                        (''status'', JStr (show_int (resp_status response))),
                        (''user_segment'', JStr (uc_userSegment (di_userContext inst)))],
                     HistogramRecord ''api_duration'' (real_of_int duration)
                       [(''domain'', JStr (dc_name domain)),
                        (''api_name'', JStr name),
                        (''method'', JStr method),
                        (''user_segment'', JStr (uc_userSegment (di_userContext inst)))]]
                    @ (if slaViolated
                       then [SpanSetAttributes
                               [(''sla.violated'', JBool True),
                                (''sla.target_ms'', JNum (dc_slaTarget domain)),
                                (''sla.actual_ms'', JNum (real_of_int duration)),
                                (''sla.violation_severity'',
                                   JStr (getSlaViolationSeverity inst duration))]]
                       else [])
                    @ [SpanSetAttributes
                         [(''http.status_code'', JNum (real_of_int (resp_status response))),
                          (''http.response_time_ms'', JNum (real_of_int duration)),
                          (''api.success'', JBool (resp_success response))]]
              in case emitTelemetryEvent inst w 0
                        \<lparr> ed_eventType = EvSpan,
                          ed_name = spanName,
                          ed_attributes = attributes,
                          ed_businessContext = createBusinessContext inst name context,
                          ed_severity = Some (if slaViolated then SevWarn else SevInfo) \<rparr> of
                   (emitted, None) \<Rightarrow>
                     \<lparr> out_result =
                         Inr \<lparr> ir_success = True,
                               ir_duration = duration,
                               ir_error = None,
                               ir_customMetrics =
                                 Some [(''sla_violated'', if slaViolated then 1 else 0),
                                       (''response_status'',
                                          real_of_int (resp_status response))] \<rparr>,
                       out_events = emitted,
                       out_trace = trace @ [SpanEnd] \<rparr>
                 | (emitted, Some t) \<Rightarrow>
                     instrumentApiCall_catch inst name context w 1 t
                       (w_catchTime w - startTime) emitted trace)
         | Inl error \<Rightarrow>
             instrumentApiCall_catch inst name context w 0 (error_thrown error)
               (w_endTime w - startTime) []
               [StartSpan spanName, SpanSetAttributes attributes])"

text \<open>
  The \<open>catch\<close> block of \<open>instrumentUserJourney\<close>. It emits no event; reading
  \<open>error.message\<close> of \<open>undefined\<close> or \<open>null\<close> throws, and the call then rejects.
\<close>

definition instrumentUserJourney_catch ::
    "DomainInstrumentor \<Rightarrow> string \<Rightarrow> string \<Rightarrow> js_thrown \<Rightarrow> int \<Rightarrow>
       TelemetryEvent list \<Rightarrow> otel_op list \<Rightarrow> CallOutput" where
  "instrumentUserJourney_catch inst journeyName stepName error duration events trace =
     (case error of
        ThrownNullish \<Rightarrow>
          \<lparr> out_result = Inl (TypeError ''error.message of undefined or null''),
            out_events = events,
            out_trace = trace @ [SpanRecordException error, SpanEnd] \<rparr>
      | ThrownValue error_name error_message error_stack \<Rightarrow>
          \<lparr> out_result =
              Inr \<lparr> ir_success = False,
                    ir_duration = duration,
                    ir_error = Some error,
                    ir_customMetrics = Some [(''journey_step_failed'', 1)] \<rparr>,
            out_events = events,
            out_trace =
              trace @
              [SpanRecordException error,
               SpanSetStatus 2 error_message,
               CounterAdd ''journey_steps'' 1
                 [(''domain'', JStr (dc_name (di_domain inst))),
                  (''journey'', JStr journeyName),
                  (''step'', JStr stepName),
                  (''success'', JStr ''false''),
                  (''error_type'', error_name),
                  (''user_segment'', JStr (uc_userSegment (di_userContext inst)))],
               SpanEnd] \<rparr>)"

text \<open>
  \<open>instrumentUserJourney\<close>. The caller's operation is given by how it settles: thrown or
  rejected with a value (\<open>Inl\<close>), or resolved with a value (\<open>Inr\<close>). When \<open>getStepNumber\<close>
  throws, the operation is never called.
\<close>

definition instrumentUserJourney ::
    "DomainInstrumentor \<Rightarrow> string \<Rightarrow> string \<Rightarrow> js_thrown + js_value \<Rightarrow> CallWorld \<Rightarrow> CallOutput" where
  "instrumentUserJourney inst journeyName stepName operation w =
     (let domain = di_domain inst;
          spanName = dc_name domain @ ''.journey.'' @ journeyName @ ''.'' @ stepName;
          startTime = w_startTime w
      in case getStepNumber journeyName stepName of
           Inl e \<Rightarrow>
             instrumentUserJourney_catch inst journeyName stepName (exn_thrown w e)
               (w_catchTime w - startTime) [] [StartSpan spanName]
         | Inr stepNumber \<Rightarrow>
             (let attributes =
                    [(''domain.name'', JStr (dc_name domain)),
                     (''journey.name'', JStr journeyName),
                     (''journey.step'', JStr stepName),
                     (''journey.step_number'', JNum (real_of_int stepNumber)),
                     (''user.session_id'', JStr (uc_sessionId (di_userContext inst))),
                     (''user.segment'', JStr (uc_userSegment (di_userContext inst))),
                     (''conversion.tracking'', JBool True)]
              in case operation of
                   Inr result \<Rightarrow>
                     (let duration = w_endTime w - startTime;
                          trace =
                            [StartSpan spanName,
                             SpanSetAttributes attributes,
                             CounterAdd ''journey_steps'' 1
                               [(''domain'', JStr (dc_name domain)),
                                (''journey'', JStr journeyName),
                                (''step'', JStr stepName),
                                (''success'', JStr ''true''),
                                (''user_segment'', JStr (uc_userSegment (di_userContext inst)))],
                             HistogramRecord ''journey_duration'' (real_of_int duration)
                               [(''domain'', JStr (dc_name domain)),
                                (''journey'', JStr journeyName),
                                (''step'', JStr stepName),
                                (''user_segment'', JStr (uc_userSegment (di_userContext inst)))]]
                      in case emitTelemetryEvent inst w 0
                                \<lparr> ed_eventType = EvSpan,
                                  ed_name = spanName,
                                  ed_attributes = attributes,
                                  ed_businessContext =
                                    \<lparr> bc_domain = dc_name domain,
                                      bc_feature = None,
                                      bc_userJourney = Some journeyName,
                                      bc_businessImpact = getJourneyBusinessImpact journeyName,
                                      bc_customMetrics = None \<rparr>,
                                  ed_severity = Some SevInfo \<rparr> of
                           (emitted, None) \<Rightarrow>
                             \<lparr> out_result =
                                 Inr \<lparr> ir_success = True,
                                       ir_duration = duration,
                                       ir_error = None,
                                       ir_customMetrics =
                                         Some [(''journey_step_completed'', 1),
                                               (''step_duration_ms'', real_of_int duration)] \<rparr>,
                               out_events = emitted,
                               out_trace = trace @ [SpanEnd] \<rparr>
                         | (emitted, Some t) \<Rightarrow>
                             instrumentUserJourney_catch inst journeyName stepName t
                               (w_catchTime w - startTime) emitted trace)
                 | Inl error \<Rightarrow>
                     instrumentUserJourney_catch inst journeyName stepName error
                       (w_endTime w - startTime) []
                       [StartSpan spanName, SpanSetAttributes attributes]))"

text \<open>
  \<open>recordBusinessMetric\<close> and \<open>trackError\<close> return nothing: the model gives the events
  handed to the callback, the trace and, when the callback threw, the exception that leaves
  the method.
\<close>

definition recordBusinessMetric ::
    "DomainInstrumentor \<Rightarrow> string \<Rightarrow> real \<Rightarrow> js_object option \<Rightarrow> CallWorld \<Rightarrow>
       TelemetryEvent list \<times> otel_op list \<times> js_exn option" where
  "recordBusinessMetric inst metricName val context_arg w =
     (let context = (case context_arg of None \<Rightarrow> [] | Some c \<Rightarrow> c);
          labels =
            obj_spread
              [(''domain'', JStr (dc_name (di_domain inst))),
               (''metric_name'', JStr metricName),
               (''user_segment'', JStr (uc_userSegment (di_userContext inst)))]
              context
      in case emitTelemetryEvent inst w 0
                \<lparr> ed_eventType = EvMetric,
                  ed_name = dc_name (di_domain inst) @ ''.business.'' @ metricName,
                  ed_attributes =
                    obj_spread [(''metric.name'', JStr metricName), (''metric.value'', JNum val)]
                      labels,
                  ed_businessContext =
                    \<lparr> bc_domain = dc_name (di_domain inst),
                      bc_feature = None,
                      bc_userJourney = None,
                      bc_businessImpact = getMetricBusinessImpact metricName,
                      bc_customMetrics = None \<rparr>,
                  ed_severity = Some SevInfo \<rparr> of
           (emitted, thrown) \<Rightarrow>
             (emitted,
              [HistogramRecord ''business_metrics'' val labels],
              map_option Rethrown thrown))"

definition trackError ::
    "DomainInstrumentor \<Rightarrow> js_error \<Rightarrow> js_object option \<Rightarrow> CallWorld \<Rightarrow>
       TelemetryEvent list \<times> otel_op list \<times> js_exn option" where
  "trackError inst error context_arg w =
     (let context = (case context_arg of None \<Rightarrow> [] | Some c \<Rightarrow> c)
      in case emitTelemetryEvent inst w 0
                \<lparr> ed_eventType = EvError,
                  ed_name = dc_name (di_domain inst) @ ''.error'',
                  ed_attributes =
                    obj_spread
                      [(''error.type'', JStr (err_name error)),
                       (''error.message'', JStr (err_message error)),
                       (''error.stack'', stack_value error)]
                      context,
                  ed_businessContext =
                    \<lparr> bc_domain = dc_name (di_domain inst),
                      bc_feature = None,
                      bc_userJourney = None,
                      bc_businessImpact = Reliability,
                      bc_customMetrics = None \<rparr>,
                  ed_severity = Some SevError \<rparr> of
           (emitted, thrown) \<Rightarrow>
             (emitted,
              [StartSpan (dc_name (di_domain inst) @ ''.error''),
               SpanRecordException (error_thrown error),
               SpanSetAttributes
                 (obj_spread
                    [(''domain.name'', JStr (dc_name (di_domain inst))),
                     (''error.type'', JStr (err_name error)),
                     (''error.message'', JStr (err_message error)),
                     (''user.session_id'', JStr (uc_sessionId (di_userContext inst)))]
                    context),
               CounterAdd ''errors'' 1
                 [(''domain'', JStr (dc_name (di_domain inst))),
                  (''error_type'', JStr (err_name error)),
                  (''user_segment'', JStr (uc_userSegment (di_userContext inst)))],
               SpanEnd],
              map_option Rethrown thrown))"

record InstrumentorContextView =
  iv_segment :: string
  iv_authenticated :: bool
  iv_deviceType :: device_type

record InstrumentorStats =
  is_domain :: string
  is_priority :: priority
  is_slaTarget :: real
  is_errorThreshold :: real
  is_features :: "string list"
  is_userContext :: InstrumentorContextView

definition instrumentor_getStats :: "DomainInstrumentor \<Rightarrow> InstrumentorStats" where
  "instrumentor_getStats inst =
     \<lparr> is_domain = dc_name (di_domain inst),
       is_priority = dc_priority (di_domain inst),
       is_slaTarget = dc_slaTarget (di_domain inst),
       is_errorThreshold = dc_errorThreshold (di_domain inst),
       is_features = dc_features (di_domain inst),
       is_userContext =
         \<lparr> iv_segment = uc_userSegment (di_userContext inst),
           iv_authenticated = uc_isAuthenticated (di_userContext inst),
           iv_deviceType = uc_deviceType (di_userContext inst) \<rparr> \<rparr>"

section \<open>ObservMetrics, the coordinator (index.ts)\<close>

datatype platform_name = Datadog | NewRelic | Grafana | Jaeger | Console

record PlatformConfig =
  pc_platform :: "platform_name option"
  pc_endpoint :: "string option"
  pc_apiKey :: "string option"
  pc_customHeaders :: "(string \<times> string) list option"
  pc_batchSize :: "nat option"
  pc_flushInterval :: "nat option"

text \<open>\<open>Partial<UserContext>\<close>: a field is \<open>None\<close> when the object does not have the key.\<close>

record PartialUserContext =
  pu_userId :: "string option"
  pu_sessionId :: "string option"
  pu_userSegment :: "string option"
  pu_isAuthenticated :: "bool option"
  pu_deviceType :: "device_type option"
  pu_customAttributes :: "js_object option"

definition emptyPartialUserContext :: PartialUserContext where
  "emptyPartialUserContext =
     \<lparr> pu_userId = None, pu_sessionId = None, pu_userSegment = None,
       pu_isAuthenticated = None, pu_deviceType = None, pu_customAttributes = None \<rparr>"

text \<open>\<open>a ?? b\<close> on optional fields: what a later spread writes wins.\<close>

definition later :: "'a option \<Rightarrow> 'a option \<Rightarrow> 'a option" where
  "later old new = (case new of None \<Rightarrow> old | Some v \<Rightarrow> Some v)"

text \<open>\<open>{ ...old, ...new }\<close> on two partial contexts.\<close>

definition mergePartial :: "PartialUserContext \<Rightarrow> PartialUserContext \<Rightarrow> PartialUserContext" where
  "mergePartial old new =
     \<lparr> pu_userId = later (pu_userId old) (pu_userId new),
       pu_sessionId = later (pu_sessionId old) (pu_sessionId new),
       pu_userSegment = later (pu_userSegment old) (pu_userSegment new),
       pu_isAuthenticated = later (pu_isAuthenticated old) (pu_isAuthenticated new),
       pu_deviceType = later (pu_deviceType old) (pu_deviceType new),
       pu_customAttributes = later (pu_customAttributes old) (pu_customAttributes new) \<rparr>"

text \<open>\<open>{ ...defaults, ...partial }\<close>: a full context.\<close>

definition overDefaults :: "UserContext \<Rightarrow> PartialUserContext \<Rightarrow> UserContext" where
  "overDefaults d p =
     \<lparr> uc_userId = later (uc_userId d) (pu_userId p),
       uc_sessionId = (case pu_sessionId p of None \<Rightarrow> uc_sessionId d | Some v \<Rightarrow> v),
       uc_userSegment = (case pu_userSegment p of None \<Rightarrow> uc_userSegment d | Some v \<Rightarrow> v),
       uc_isAuthenticated =
         (case pu_isAuthenticated p of None \<Rightarrow> uc_isAuthenticated d | Some v \<Rightarrow> v),
       uc_deviceType = (case pu_deviceType p of None \<Rightarrow> uc_deviceType d | Some v \<Rightarrow> v),
       uc_customAttributes = later (uc_customAttributes d) (pu_customAttributes p) \<rparr>"

text \<open>
  The argument of the constructor: \<open>userContext\<close> and \<open>platform\<close> may be missing, and the
  constructor fills them in.
\<close>

record ConfigArg =
  ca_userContext :: "PartialUserContext option"
  ca_domains :: "DomainConfig list"
  ca_filtering :: FilterConfig
  ca_platform :: "PlatformConfig option"
  ca_debug :: bool

text \<open>
  The configuration the coordinator holds. Its \<open>filtering\<close> object is the one the filter
  holds (the constructor passes the reference), so it is kept once, in the filter.
\<close>

record ObservMetricsConfig =
  cfg_userContext :: PartialUserContext
  cfg_domains :: "DomainConfig list"
  cfg_platform :: PlatformConfig
  cfg_debug :: bool

datatype Exporter = DatadogExporter PlatformConfig | NewRelicExporter PlatformConfig | ConsoleExporter

fun exporter_name :: "Exporter \<Rightarrow> string" where
  "exporter_name (DatadogExporter c) = ''datadog''"
| "exporter_name (NewRelicExporter c) = ''newrelic''"
| "exporter_name ConsoleExporter = ''console''"


record ObservMetrics =
  om_config :: ObservMetricsConfig
  om_Filter :: Filter
  om_instrumentors :: "(string \<times> DomainInstrumentor) list"
  om_exporters :: "Exporter list"
  om_events :: "TelemetryEvent list"
  om_isInitialized :: bool

datatype console_line =
    ConsoleLog string
  | ConsoleWarn string
  | ConsoleError string js_exn
  | ConsoleGroup string
  | ConsoleGroupEnd

text \<open>
  What a method of the coordinator does: the coordinator afterwards, the exception it threw
  (if any), what it wrote to the console, the calls of \<open>export\<close> it made (exporter name and
  batch) and the exporters whose \<open>destroy\<close> it called.
\<close>

record Step =
  st_state :: ObservMetrics
  st_thrown :: "js_exn option"
  st_console :: "console_line list"
  st_exports :: "(string \<times> TelemetryEvent list) list"
  st_destroyed :: "string list"

definition setupExporters :: "ObservMetricsConfig \<Rightarrow> Exporter list \<Rightarrow> Exporter list" where
  "setupExporters config exporters =
     (case pc_platform (cfg_platform config) of
        Some Datadog \<Rightarrow> exporters @ [DatadogExporter (cfg_platform config)]
      | Some NewRelic \<Rightarrow> exporters @ [NewRelicExporter (cfg_platform config)]
      | _ \<Rightarrow> exporters @ [ConsoleExporter])"

definition new_ObservMetrics :: "ConfigArg \<Rightarrow> ObservMetrics" where
  "new_ObservMetrics config =
     (let cfg =
        \<lparr> cfg_userContext =
            (case ca_userContext config of None \<Rightarrow> emptyPartialUserContext | Some u \<Rightarrow> u),
          cfg_domains = ca_domains config,
          cfg_platform =
            (case ca_platform config of
               None \<Rightarrow>
                 \<lparr> pc_platform = Some Console, pc_endpoint = None, pc_apiKey = None,
                   pc_customHeaders = None, pc_batchSize = None, pc_flushInterval = None \<rparr>
             | Some pl \<Rightarrow>
                 pl \<lparr> pc_platform := later (Some Console) (pc_platform pl) \<rparr>),
          cfg_debug = ca_debug config \<rparr>
      in \<lparr> om_config = cfg,
           om_Filter = new_Filter (ca_filtering config),
           om_instrumentors = [],
           om_exporters = setupExporters cfg [],
           om_events = [],
           om_isInitialized = False \<rparr>)"

text \<open>\<open>getCurrentUserContext\<close>; \<open>now\<close> is \<open>Date.now()\<close> at the call.\<close>

definition getCurrentUserContext :: "ObservMetrics \<Rightarrow> Env \<Rightarrow> int \<Rightarrow> js_exn + UserContext" where
  "getCurrentUserContext om env now =
     (case env_navigator env of
        None \<Rightarrow> Inl (MissingGlobal ''navigator'')
      | Some n \<Rightarrow>
          Inr (overDefaults
                 \<lparr> uc_userId = None,
                   uc_sessionId = ''session_'' @ show_int now,
                   uc_userSegment = ''anonymous'',
                   uc_isAuthenticated = False,
                   uc_deviceType =
                     (if mobilePattern
                           (case nav_userAgent n of None \<Rightarrow> ''undefined'' | Some u \<Rightarrow> u)
                      then Mobile else Desktop),
                   uc_customAttributes = None \<rparr>
                 (cfg_userContext (om_config om))))"

text \<open>
  The loop of \<open>initializeDomainInstrumentors\<close> over the configured domains, on the map of
  instrumentors: the map so far, and the exception that ended the loop, if any.
\<close>

fun initializeDomainInstrumentors ::
    "ObservMetrics \<Rightarrow> Env \<Rightarrow> int \<Rightarrow> DomainConfig list \<Rightarrow> (string \<times> DomainInstrumentor) list \<Rightarrow>
       (string \<times> DomainInstrumentor) list \<times> js_exn option" where
  "initializeDomainInstrumentors om env now [] m = (m, None)"
| "initializeDomainInstrumentors om env now (domain # rest) m =
     (case getCurrentUserContext om env now of
        Inl e \<Rightarrow> (m, Some e)
      | Inr ctx \<Rightarrow>
          initializeDomainInstrumentors om env now rest
            (obj_set (dc_name domain)
               \<lparr> di_domain = domain, di_userContext = ctx, di_hasOnEvent = True \<rparr> m))"

definition logConfiguration :: "ObservMetrics \<Rightarrow> Env \<Rightarrow> int \<Rightarrow> console_line list \<times> js_exn option" where
  "logConfiguration om env now =
     (case getCurrentUserContext om env now of
        Inl e \<Rightarrow>
          ([ConsoleGroup ''[ObservMetrics] Configuration'', ConsoleLog ''Domains:'',
            ConsoleLog ''Platform:'', ConsoleLog ''Filtering:''], Some e)
      | Inr ctx \<Rightarrow>
          ([ConsoleGroup ''[ObservMetrics] Configuration'', ConsoleLog ''Domains:'',
            ConsoleLog ''Platform:'', ConsoleLog ''Filtering:'', ConsoleLog ''User Context:'',
            ConsoleGroupEnd], None))"

text \<open>
  \<open>initialize\<close>. \<open>otel\<close> is how \<open>initializeOpenTelemetry\<close> ends: \<open>None\<close> when it returns,
  the exception when it throws.
\<close>

definition initialize :: "ObservMetrics \<Rightarrow> Env \<Rightarrow> int \<Rightarrow> js_exn option \<Rightarrow> Step" where
  "initialize om env now otel =
     (if om_isInitialized om
      then \<lparr> st_state = om, st_thrown = None,
             st_console = [ConsoleWarn ''[ObservMetrics] Already initialized''],
             st_exports = [], st_destroyed = [] \<rparr>
      else
        (case isRealUserSession (om_Filter om) env now None of
           Inl e \<Rightarrow>
             \<lparr> st_state = om, st_thrown = Some e, st_console = [],
               st_exports = [], st_destroyed = [] \<rparr>
         | Inr False \<Rightarrow>
             \<lparr> st_state = om, st_thrown = None,
               st_console =
                 (if cfg_debug (om_config om)
                  then [ConsoleLog
                          ''[ObservMetrics] Bot/automated session detected, skipping initialization'']
                  else []),
               st_exports = [], st_destroyed = [] \<rparr>
         | Inr True \<Rightarrow>
             (case otel of
                Some e \<Rightarrow>
                  \<lparr> st_state = om, st_thrown = Some e,
                    st_console = [ConsoleError ''[ObservMetrics] Failed to initialize:'' e],
                    st_exports = [], st_destroyed = [] \<rparr>
              | None \<Rightarrow>
                  (case initializeDomainInstrumentors om env now (cfg_domains (om_config om))
                          (om_instrumentors om) of
                     (m, Some e) \<Rightarrow>
                       \<lparr> st_state = om \<lparr> om_instrumentors := m \<rparr>, st_thrown = Some e,
                         st_console = [ConsoleError ''[ObservMetrics] Failed to initialize:'' e],
                         st_exports = [], st_destroyed = [] \<rparr>
                   | (m, None) \<Rightarrow>
                       (let om' = om \<lparr> om_instrumentors := m, om_isInitialized := True \<rparr>
                        in if cfg_debug (om_config om)
                           then
                             (case logConfiguration om' env now of
                                (ls, Some e) \<Rightarrow>
                                  \<lparr> st_state = om', st_thrown = Some e,
                                    st_console =
                                      [ConsoleLog
                                         ''[ObservMetrics] Successfully initialized with business context monitoring'']
                                      @ ls
                                      @ [ConsoleError ''[ObservMetrics] Failed to initialize:'' e],
                                    st_exports = [], st_destroyed = [] \<rparr>
                              | (ls, None) \<Rightarrow>
                                  \<lparr> st_state = om', st_thrown = None,
                                    st_console =
                                      [ConsoleLog
                                         ''[ObservMetrics] Successfully initialized with business context monitoring'']
                                      @ ls,
                                    st_exports = [], st_destroyed = [] \<rparr>)
                           else
                             \<lparr> st_state = om', st_thrown = None, st_console = [],
                               st_exports = [], st_destroyed = [] \<rparr>)))))"

text \<open>
  \<open>getDomainInstrumentor\<close>; \<open>stack\<close> is the stack text the runtime gives the new \<open>Error\<close>.
\<close>

definition getDomainInstrumentor ::
    "ObservMetrics \<Rightarrow> string \<Rightarrow> string option \<Rightarrow> js_exn + DomainInstrumentor" where
  "getDomainInstrumentor om domainName stack =
     (case map_of (om_instrumentors om) domainName of
        None \<Rightarrow>
          Inl (Thrown
                 \<lparr> err_name = ''Error'',
                   err_message =
                     ''Domain instrumentor not found: '' @ domainName @ ''. Available domains: ''
                       @ join '', '' (map fst (om_instrumentors om)),
                   err_stack = stack \<rparr>)
      | Some instrumentor \<Rightarrow> Inr instrumentor)"

text \<open>
  The loop of \<open>updateUserContext\<close> over the instrumentors: each one whose domain is still
  configured is built again with the current context and stored under the domain's name.
\<close>

fun rebuildInstrumentors ::
    "ObservMetrics \<Rightarrow> Env \<Rightarrow> int \<Rightarrow> (string \<times> DomainInstrumentor) list \<Rightarrow>
       (string \<times> DomainInstrumentor) list \<Rightarrow> (string \<times> DomainInstrumentor) list \<times> js_exn option" where
  "rebuildInstrumentors om env now [] m = (m, None)"
| "rebuildInstrumentors om env now ((key, instrumentor) # rest) m =
     (case find (\<lambda>d. dc_name d = is_domain (instrumentor_getStats instrumentor))
             (cfg_domains (om_config om)) of
        None \<Rightarrow> rebuildInstrumentors om env now rest m
      | Some domain \<Rightarrow>
          (case getCurrentUserContext om env now of
             Inl e \<Rightarrow> (m, Some e)
           | Inr ctx \<Rightarrow>
               rebuildInstrumentors om env now rest
                 (obj_set (dc_name domain)
                    \<lparr> di_domain = domain, di_userContext = ctx, di_hasOnEvent = True \<rparr> m)))"

definition updateUserContext :: "ObservMetrics \<Rightarrow> Env \<Rightarrow> int \<Rightarrow> PartialUserContext \<Rightarrow> Step" where
  "updateUserContext om env now newContext =
     (let om' = om \<lparr> om_config := (om_config om)
                      \<lparr> cfg_userContext :=
                          mergePartial (cfg_userContext (om_config om)) newContext \<rparr> \<rparr>
      in case rebuildInstrumentors om' env now (om_instrumentors om') (om_instrumentors om') of
           (m, thrown) \<Rightarrow>
             \<lparr> st_state = om' \<lparr> om_instrumentors := m \<rparr>, st_thrown = thrown,
               st_console = [], st_exports = [], st_destroyed = [] \<rparr>)"

definition addFilter :: "ObservMetrics \<Rightarrow> FilterFunction \<Rightarrow> ObservMetrics" where
  "addFilter om flt = om \<lparr> om_Filter := addCustomFilter flt (om_Filter om) \<rparr>"

record Stats =
  stats_initialized :: bool
  stats_domains :: "string list"
  stats_eventsProcessed :: nat
  stats_filterStats :: FilterStats
  stats_userContext :: UserContext
  stats_exporters :: "string list"

definition getStats :: "ObservMetrics \<Rightarrow> Env \<Rightarrow> int \<Rightarrow> js_exn + Stats" where
  "getStats om env now =
     (case getCurrentUserContext om env now of
        Inl e \<Rightarrow> Inl e
      | Inr ctx \<Rightarrow>
          Inr \<lparr> stats_initialized = om_isInitialized om,
                stats_domains = map fst (om_instrumentors om),
                stats_eventsProcessed = length (om_events om),
                stats_filterStats = filter_getStats (om_Filter om),
                stats_userContext = ctx,
                stats_exporters = map exporter_name (om_exporters om) \<rparr>)"

text \<open>\<open>getStats().userContext.sessionId\<close> and \<open>getStats().userContext.userSegment\<close>.\<close>

definition stats_sessionId :: "js_exn + Stats \<Rightarrow> js_exn + string" where
  "stats_sessionId r = map_sum id (uc_sessionId \<circ> stats_userContext) r"

definition stats_userSegment :: "js_exn + Stats \<Rightarrow> js_exn + string" where
  "stats_userSegment r = map_sum id (uc_userSegment \<circ> stats_userContext) r"



section \<open>Concrete inputs\<close>

text \<open>The inputs of the repository's tests, used where a property is run on a value.\<close>

definition test_userAgent :: string where
  "test_userAgent = ''Mozilla/5.0 (Windows NT 10.0; Win64; x64) AppleWebKit/537.36''"

definition test_url :: string where
  "test_url = ''http://localhost:3000/test''"

definition test_env :: Env where
  "test_env =
     \<lparr> env_window =
         Some \<lparr> win_chrome_runtime = None, win_callPhantom = False, win_phantom = False,
                win_outerHeight = Some 768, win_outerWidth = Some 1024,
                win_innerHeight = Some 768, win_innerWidth = Some 1024,
                win_ontouchstart = False, win_document_cdc = False,
                win_document_chrome_asyncScriptInfo = False,
                win_location_hostname = ''localhost'' \<rparr>,
       env_navigator =
         Some \<lparr> nav_userAgent = Some test_userAgent,
                nav_webdriver = False, nav_permissions_query_text = None \<rparr>,
       env_screen = Some \<lparr> scr_width = Some 1920, scr_height = Some 1080 \<rparr>,
       env_timezoneOffset = 0,
       env_numstr = (\<lambda>r. []) \<rparr>"

definition test_context :: UserContext where
  "test_context =
     \<lparr> uc_userId = None, uc_sessionId = ''test-session'', uc_userSegment = ''premium'',
       uc_isAuthenticated = True, uc_deviceType = Desktop, uc_customAttributes = None \<rparr>"

definition test_event :: TelemetryEvent where
  "test_event =
     \<lparr> ev_id = ''1'', ev_timestamp = ''2024-01-01T00:00:00.000Z'', ev_domain = ''unknown'',
       ev_eventType = EvSpan, ev_name = ''test-event'',
       ev_attributes = [(''http.url'', JStr test_url)],
       ev_businessContext =
         \<lparr> bc_domain = ''unknown'', bc_feature = None, bc_userJourney = None,
           bc_businessImpact = Performance, bc_customMetrics = None \<rparr>,
       ev_severity = Some SevInfo \<rparr>"

text \<open>The configuration of the test \<open>should apply sampling rate\<close>.\<close>

definition sampling_zero_config :: FilterConfig where
  "sampling_zero_config =
     \<lparr> fc_enableBotDetection = False, fc_domainWhitelist = Some [''localhost''],
       fc_errorThreshold = 0, fc_samplingRate = 0, fc_excludeExtensions = False,
       fc_excludeThirdPartyErrors = False, fc_customFilters = None \<rparr>"

definition test_domain :: DomainConfig where
  "test_domain =
     \<lparr> dc_name = ''ecommerce'', dc_priority = PriorityCritical, dc_slaTarget = 2000,
       dc_errorThreshold = 0.1, dc_features = [''cart'', ''checkout'', ''payment''],
       dc_customAttributes = None \<rparr>"

definition test_instrumentor :: DomainInstrumentor where
  "test_instrumentor =
     \<lparr> di_domain = test_domain, di_userContext = test_context, di_hasOnEvent = True \<rparr>"

text \<open>The same instrumentor, built without the optional callback.\<close>

definition silent_instrumentor :: DomainInstrumentor where
  "silent_instrumentor =
     \<lparr> di_domain = test_domain, di_userContext = test_context, di_hasOnEvent = False \<rparr>"

text \<open>
  A call that takes 250 ms and whose second draw, 0.05, is below the error threshold; the
  callback returns.
\<close>

definition failing_world :: CallWorld where
  "failing_world =
     \<lparr> w_startTime = 1000, w_endTime = 1250, w_catchTime = 1251,
       w_jitterDraw = 0.05, w_errorDraw = 0.05,
       w_errorStack = Some ''Error: API call failed: /api/checkout'',
       w_eventId = (\<lambda>n. ''1250_abc123def''),
       w_eventTimestamp = (\<lambda>n. ''2024-01-01T00:00:01.250Z''),
       w_onEvent = (\<lambda>n. None) \<rparr>"

text \<open>A call that takes 5000 ms and succeeds (draw 0.2); the callback returns.\<close>

definition slow_world :: CallWorld where
  "slow_world =
     \<lparr> w_startTime = 1000, w_endTime = 6000, w_catchTime = 6001,
       w_jitterDraw = 0.2, w_errorDraw = 0.2,
       w_errorStack = None,
       w_eventId = (\<lambda>n. ''6000_abc123def''),
       w_eventTimestamp = (\<lambda>n. ''2024-01-01T00:00:06.000Z''),
       w_onEvent = (\<lambda>n. None) \<rparr>"

definition test_filtering :: FilterConfig where
  "test_filtering =
     \<lparr> fc_enableBotDetection = True, fc_domainWhitelist = Some [''localhost''],
       fc_errorThreshold = 0, fc_samplingRate = 1, fc_excludeExtensions = True,
       fc_excludeThirdPartyErrors = False, fc_customFilters = None \<rparr>"

definition test_domains :: "DomainConfig list" where
  "test_domains =
     [\<lparr> dc_name = ''authentication'', dc_priority = PriorityCritical, dc_slaTarget = 2000,
        dc_errorThreshold = 0.1, dc_features = [''login'', ''register''],
        dc_customAttributes = None \<rparr>,
      \<lparr> dc_name = ''ecommerce'', dc_priority = PriorityCritical, dc_slaTarget = 3000,
        dc_errorThreshold = 0.05, dc_features = [''cart'', ''checkout''],
        dc_customAttributes = None \<rparr>]"

definition console_platform :: PlatformConfig where
  "console_platform =
     \<lparr> pc_platform = Some Console, pc_endpoint = None, pc_apiKey = None,
       pc_customHeaders = None, pc_batchSize = None, pc_flushInterval = None \<rparr>"

definition test_config :: ConfigArg where
  "test_config =
     \<lparr> ca_userContext =
         Some \<lparr> pu_userId = None, pu_sessionId = Some ''test-session'',
                pu_userSegment = Some ''premium'', pu_isAuthenticated = Some True,
                pu_deviceType = Some Desktop, pu_customAttributes = None \<rparr>,
       ca_domains = test_domains,
       ca_filtering = test_filtering,
       ca_platform = Some console_platform,
       ca_debug = False \<rparr>"

text \<open>The same configuration without a \<open>userContext\<close>: no session id is supplied.\<close>

definition anonymous_config :: ConfigArg where
  "anonymous_config = test_config \<lparr> ca_userContext := None \<rparr>"

text \<open>The coordinators of these two configurations, initialized at clock 1000.\<close>

definition test_coordinator :: ObservMetrics where
  "test_coordinator = st_state (initialize (new_ObservMetrics test_config) test_env 1000 None)"

definition anonymous_coordinator :: ObservMetrics where
  "anonymous_coordinator =
     st_state (initialize (new_ObservMetrics anonymous_config) test_env 1000 None)"

definition enterprise_update :: PartialUserContext where
  "enterprise_update = emptyPartialUserContext \<lparr> pu_userSegment := Some ''enterprise'' \<rparr>"

section \<open>Properties of the filter\<close>

text \<open>
  C1. An event whose severity is \<open>error\<close> or \<open>critical\<close> is admitted, whatever the filter
  configuration (sampling rate 0 included), the environment, the user context and the
  random draw are.
\<close>

theorem shouldProcess_error_critical:
  assumes "ev_severity event = Some SevError \<or> ev_severity event = Some SevCritical"
  shows "shouldProcess f env draw event context = Inr True"
  using assms by (simp add: shouldProcess_def)

text \<open>A critical event under sampling rate 0.\<close>

theorem shouldProcess_error_critical_witness:
  "ev_severity (test_event \<lparr> ev_severity := Some SevCritical \<rparr>) = Some SevCritical
   \<and> shouldProcess (new_Filter sampling_zero_config) test_env (1/2)
        (test_event \<lparr> ev_severity := Some SevCritical \<rparr>) test_context = Inr True"
  using shouldProcess_error_critical
    [of "test_event \<lparr> ev_severity := Some SevCritical \<rparr>"
        "new_Filter sampling_zero_config" test_env "1/2" test_context]
  by simp

text \<open>
  When no earlier rule decides, the answer is the sampling rule's: the event is rejected
  exactly when the draw is greater than the sampling rate.
\<close>

lemma shouldProcess_undecided:
  assumes "ev_severity event \<noteq> Some SevError" and "ev_severity event \<noteq> Some SevCritical"
    and "\<not> fc_enableBotDetection (f_config f) \<or> isBotSession f env context = Inr False"
    and "isDomainAllowed f env event = Inr True"
    and "\<not> isNoiseEvent f env event"
    and "\<not> (fc_excludeExtensions (f_config f) \<and> isExtensionEvent f env event)"
    and "case fc_customFilters (f_config f) of None \<Rightarrow> True
         | Some fs \<Rightarrow> customFiltersPass fs event context"
  shows "shouldProcess f env draw event context = Inr (\<not> draw > fc_samplingRate (f_config f))"
  using assms by (auto simp: shouldProcess_def split: option.splits)

text \<open>
  So a sampling rate of 1 never rejects a draw of \<open>[0, 1)\<close>, and a sampling rate of 0
  rejects every draw above 0.
\<close>

lemma shouldProcess_sampling_one:
  assumes "ev_severity event \<noteq> Some SevError" and "ev_severity event \<noteq> Some SevCritical"
    and "\<not> fc_enableBotDetection (f_config f) \<or> isBotSession f env context = Inr False"
    and "isDomainAllowed f env event = Inr True"
    and "\<not> isNoiseEvent f env event"
    and "\<not> (fc_excludeExtensions (f_config f) \<and> isExtensionEvent f env event)"
    and "case fc_customFilters (f_config f) of None \<Rightarrow> True
         | Some fs \<Rightarrow> customFiltersPass fs event context"
    and "fc_samplingRate (f_config f) = 1" and "draw < 1"
  shows "shouldProcess f env draw event context = Inr True"
  using shouldProcess_undecided [OF assms(1-7), of draw] assms(8,9) by simp

lemma shouldProcess_sampling_zero_positive_draw:
  assumes "ev_severity event \<noteq> Some SevError" and "ev_severity event \<noteq> Some SevCritical"
    and "\<not> fc_enableBotDetection (f_config f) \<or> isBotSession f env context = Inr False"
    and "isDomainAllowed f env event = Inr True"
    and "\<not> isNoiseEvent f env event"
    and "\<not> (fc_excludeExtensions (f_config f) \<and> isExtensionEvent f env event)"
    and "case fc_customFilters (f_config f) of None \<Rightarrow> True
         | Some fs \<Rightarrow> customFiltersPass fs event context"
    and "fc_samplingRate (f_config f) = 0" and "0 < draw"
  shows "shouldProcess f env draw event context = Inr False"
  using shouldProcess_undecided [OF assms(1-7), of draw] assms(8,9) by simp

text \<open>
  C2. With sampling rate 0 and no earlier rule deciding, \<open>shouldProcess\<close> is to reject for
  every draw in \<open>[0, 1)\<close>. The code compares with \<open>>\<close>, so at the draw 0 it admits: the
  event, the context and the configuration are those of the test
  \<open>should apply sampling rate\<close>, which expects \<open>false\<close>.
\<close>

theorem shouldProcess_sampling_zero_draw_zero:
  "shouldProcess (new_Filter sampling_zero_config) test_env 0 test_event test_context = Inr True"
  by code_simp

section \<open>Properties of the instrumentor\<close>

text \<open>
  C3, as amended. When the call of \<open>executeApiCall\<close> throws, an instrumentor built with the
  callback \<open>onEvent\<close> hands it exactly one event, of type \<open>error\<close> and severity \<open>error\<close>,
  whose attributes are the error's type, message and stack; one built without the callback
  emits nothing. When the callback (if there is one) returns, \<open>instrumentApiCall\<close> does not
  throw: it returns \<open>{success: false, duration, error, customMetrics: {error_occurred: 1}}\<close>
  with the duration from the start of the call to the rejection.
\<close>

theorem instrumentApiCall_failure:
  assumes "snd (executeApiCall inst endpoint (case method_arg of None \<Rightarrow> ''GET'' | Some m \<Rightarrow> m) w)
           = Inl error"
  shows "map ev_eventType (out_events (instrumentApiCall inst name endpoint method_arg context_arg w))
             = (if di_hasOnEvent inst then [EvError] else [])
         \<and> map ev_severity (out_events (instrumentApiCall inst name endpoint method_arg context_arg w))
             = (if di_hasOnEvent inst then [Some SevError] else [])
         \<and> map ev_attributes (out_events (instrumentApiCall inst name endpoint method_arg context_arg w))
             = (if di_hasOnEvent inst
                then [[(''error.type'', JStr (err_name error)),
                       (''error.message'', JStr (err_message error)),
                       (''error.stack'', stack_value error)]]
                else [])
         \<and> ((di_hasOnEvent inst \<longrightarrow> w_onEvent w 0 = None) \<longrightarrow>
              out_result (instrumentApiCall inst name endpoint method_arg context_arg w) =
                Inr \<lparr> ir_success = False, ir_duration = w_endTime w - w_startTime w,
                      ir_error = Some (error_thrown error),
                      ir_customMetrics = Some [(''error_occurred'', 1)] \<rparr>)"
  using assms
  by (auto simp: instrumentApiCall_def instrumentApiCall_catch_def Let_def
      emitTelemetryEvent_def error_thrown_def)

text \<open>A failing call on an instrumentor whose callback returns: one \<open>error\<close> event.\<close>

theorem instrumentApiCall_failure_witness:
  "snd (executeApiCall test_instrumentor ''/api/checkout'' ''POST'' failing_world)
     = Inl \<lparr> err_name = ''Error'', err_message = ''API call failed: /api/checkout'',
             err_stack = Some ''Error: API call failed: /api/checkout'' \<rparr>
   \<and> di_hasOnEvent test_instrumentor
   \<and> w_onEvent failing_world 0 = None
   \<and> out_result (instrumentApiCall test_instrumentor ''checkout'' ''/api/checkout''
         (Some ''POST'') None failing_world) =
       Inr \<lparr> ir_success = False, ir_duration = 250,
             ir_error =
               Some (ThrownValue (JStr ''Error'') (JStr ''API call failed: /api/checkout'')
                       (JStr ''Error: API call failed: /api/checkout'')),
             ir_customMetrics = Some [(''error_occurred'', 1)] \<rparr>
   \<and> map ev_eventType (out_events (instrumentApiCall test_instrumentor ''checkout''
         ''/api/checkout'' (Some ''POST'') None failing_world)) = [EvError]
   \<and> map ev_severity (out_events (instrumentApiCall test_instrumentor ''checkout''
         ''/api/checkout'' (Some ''POST'') None failing_world)) = [Some SevError]
   \<and> map ev_attributes (out_events (instrumentApiCall test_instrumentor ''checkout''
         ''/api/checkout'' (Some ''POST'') None failing_world)) =
       [[(''error.type'', JStr ''Error''),
         (''error.message'', JStr ''API call failed: /api/checkout''),
         (''error.stack'', JStr ''Error: API call failed: /api/checkout'')]]"
proof -
  have h: "snd (executeApiCall test_instrumentor ''/api/checkout''
                  (case Some ''POST'' of None \<Rightarrow> ''GET'' | Some m \<Rightarrow> m) failing_world)
     = Inl \<lparr> err_name = ''Error'', err_message = ''API call failed: /api/checkout'',
             err_stack = Some ''Error: API call failed: /api/checkout'' \<rparr>"
    by (simp add: executeApiCall_def test_instrumentor_def test_domain_def failing_world_def)
  have c: "di_hasOnEvent test_instrumentor" "w_onEvent failing_world 0 = None"
    by (simp_all add: test_instrumentor_def failing_world_def)
  have d: "w_endTime failing_world - w_startTime failing_world = 250"
    by (simp add: failing_world_def)
  show ?thesis
    using h c instrumentApiCall_failure [OF h, of "''checkout''" None]
    by (simp add: d stack_value_def error_thrown_def)
qed

text \<open>
  The claim C3 as it is written fails for an instrumentor built without the callback: the
  call fails and no event is emitted.
\<close>

theorem instrumentApiCall_failure_no_callback:
  "isl (snd (executeApiCall silent_instrumentor ''/api/checkout'' ''POST'' failing_world))
   \<and> length (out_events (instrumentApiCall silent_instrumentor ''checkout'' ''/api/checkout''
        (Some ''POST'') None failing_world)) \<noteq> 1"
  by (simp add: executeApiCall_def instrumentApiCall_def instrumentApiCall_catch_def Let_def
      emitTelemetryEvent_def error_thrown_def silent_instrumentor_def test_domain_def
      failing_world_def)

text \<open>
  What the amended claim leaves out: a callback that throws on the error event makes the
  call reject with what the callback threw.
\<close>

lemma instrumentApiCall_failure_callback_throws:
  assumes "snd (executeApiCall inst endpoint (case method_arg of None \<Rightarrow> ''GET'' | Some m \<Rightarrow> m) w)
           = Inl error"
    and "di_hasOnEvent inst" and "w_onEvent w 0 = Some t"
  shows "out_result (instrumentApiCall inst name endpoint method_arg context_arg w)
           = Inl (Rethrown t)"
  using assms
  by (simp add: instrumentApiCall_def instrumentApiCall_catch_def Let_def
      emitTelemetryEvent_def error_thrown_def)

text \<open>
  C4. \<open>instrumentUserJourney\<close> is never to throw when the caller's operation rejects. For
  an operation that rejects with \<open>undefined\<close> (\<open>() => Promise.reject()\<close>) the \<open>catch\<close> block
  reads \<open>error.message\<close> of \<open>undefined\<close>: the call rejects with a \<open>TypeError\<close> and returns no
  result.
\<close>

theorem instrumentUserJourney_rejects_on_undefined:
  "out_result (instrumentUserJourney test_instrumentor ''purchase_flow'' ''checkout''
      (Inl ThrownNullish) failing_world)
     = Inl (TypeError ''error.message of undefined or null'')"
  by (simp add: instrumentUserJourney_def instrumentUserJourney_catch_def getStepNumber_def
      obj_lookup_def Let_def)

text \<open>
  For a rejection with any other value, and a journey name that \<open>getStepNumber\<close> accepts,
  the call returns \<open>{success: false, duration, error, customMetrics:
  {journey_step_failed: 1}}\<close> and hands no event to the callback.
\<close>

lemma instrumentUserJourney_failure:
  assumes "getStepNumber journeyName stepName = Inr stepNumber"
  shows "out_result (instrumentUserJourney inst journeyName stepName
            (Inl (ThrownValue error_name error_message error_stack)) w) =
           Inr \<lparr> ir_success = False, ir_duration = w_endTime w - w_startTime w,
                 ir_error = Some (ThrownValue error_name error_message error_stack),
                 ir_customMetrics = Some [(''journey_step_failed'', 1)] \<rparr>
       \<and> out_events (instrumentUserJourney inst journeyName stepName
            (Inl (ThrownValue error_name error_message error_stack)) w) = []"
  using assms
  by (simp add: instrumentUserJourney_def instrumentUserJourney_catch_def Let_def)

text \<open>
  For a journey name that is a key of \<open>Object.prototype\<close>, \<open>getStepNumber\<close> throws inside
  the \<open>try\<close>: the operation is not called, and the error of the result is that \<open>TypeError\<close>.
\<close>

lemma instrumentUserJourney_prototype_key:
  "out_result (instrumentUserJourney inst ''constructor'' stepName operation w)
     = Inr \<lparr> ir_success = False, ir_duration = w_catchTime w - w_startTime w,
             ir_error =
               Some (ThrownValue (JStr ''TypeError'') (JStr ''steps.indexOf is not a function'')
                       (case w_errorStack w of None \<Rightarrow> JUndefined | Some s \<Rightarrow> JStr s)),
             ir_customMetrics = Some [(''journey_step_failed'', 1)] \<rparr>"
  by (simp add: instrumentUserJourney_def instrumentUserJourney_catch_def getStepNumber_def
      obj_lookup_def objectPrototypeKeys_def Let_def)

text \<open>
  C5. For a successful \<open>instrumentApiCall\<close> with measured duration \<open>d\<close> and SLA target
  \<open>t > 0\<close>: \<open>customMetrics.sla_violated\<close> is 1 when \<open>d > t\<close> and 0 otherwise; the emitted
  span event has severity \<open>warn\<close> when \<open>d > t\<close> and \<open>info\<close> otherwise; and when \<open>d > t\<close>
  the span is given the violation severity \<open>critical\<close> if \<open>d / t > 3\<close>, else \<open>high\<close> if
  \<open>d / t > 2\<close>, else \<open>medium\<close> if \<open>d / t > 1.5\<close>, else \<open>low\<close>. The call is successful when
  \<open>executeApiCall\<close> returns its response and the callback, if there is one, returns.
\<close>

theorem instrumentApiCall_sla:
  assumes "0 < dc_slaTarget (di_domain inst)"
    and "snd (executeApiCall inst endpoint (case method_arg of None \<Rightarrow> ''GET'' | Some m \<Rightarrow> m) w)
           = Inr response"
    and "di_hasOnEvent inst \<longrightarrow> w_onEvent w 0 = None"
  shows "out_result (instrumentApiCall inst name endpoint method_arg context_arg w) =
           Inr \<lparr> ir_success = True,
                 ir_duration = w_endTime w - w_startTime w,
                 ir_error = None,
                 ir_customMetrics =
                   Some [(''sla_violated'',
                            if real_of_int (w_endTime w - w_startTime w)
                                 > dc_slaTarget (di_domain inst)
                            then 1 else 0),
                         (''response_status'', 200)] \<rparr>
     \<and> map ev_eventType (out_events (instrumentApiCall inst name endpoint method_arg context_arg w))
         = (if di_hasOnEvent inst then [EvSpan] else [])
     \<and> map ev_severity (out_events (instrumentApiCall inst name endpoint method_arg context_arg w))
         = (if di_hasOnEvent inst
            then [Some (if real_of_int (w_endTime w - w_startTime w) > dc_slaTarget (di_domain inst)
                        then SevWarn else SevInfo)]
            else [])
     \<and> (real_of_int (w_endTime w - w_startTime w) > dc_slaTarget (di_domain inst) \<longrightarrow>
          SpanSetAttributes
            [(''sla.violated'', JBool True),
             (''sla.target_ms'', JNum (dc_slaTarget (di_domain inst))),
             (''sla.actual_ms'', JNum (real_of_int (w_endTime w - w_startTime w))),
             (''sla.violation_severity'',
                JStr (getSlaViolationSeverity inst (w_endTime w - w_startTime w)))]
            \<in> set (out_trace (instrumentApiCall inst name endpoint method_arg context_arg w))
          \<and> getSlaViolationSeverity inst (w_endTime w - w_startTime w) =
              (if real_of_int (w_endTime w - w_startTime w) / dc_slaTarget (di_domain inst) > 3
                 then ''critical''
               else if real_of_int (w_endTime w - w_startTime w) / dc_slaTarget (di_domain inst) > 2
                 then ''high''
               else if real_of_int (w_endTime w - w_startTime w) / dc_slaTarget (di_domain inst) > 1.5
                 then ''medium''
               else ''low''))"
proof -
  have resp: "resp_status response = 200"
    using assms(2) by (auto simp: executeApiCall_def Let_def split: if_splits)
  have sev: "getSlaViolationSeverity inst d =
              (if real_of_int d / dc_slaTarget (di_domain inst) > 3 then ''critical''
               else if real_of_int d / dc_slaTarget (di_domain inst) > 2 then ''high''
               else if real_of_int d / dc_slaTarget (di_domain inst) > 1.5 then ''medium''
               else ''low'')" for d
    using assms(1) by (simp add: getSlaViolationSeverity_def Let_def)
  show ?thesis
  proof (cases "di_hasOnEvent inst")
    case True
    with assms(3) have "w_onEvent w 0 = None" by simp
    with True assms(2) resp sev show ?thesis
      by (simp add: instrumentApiCall_def Let_def emitTelemetryEvent_def)
  next
    case False
    with assms(2) resp sev show ?thesis
      by (simp add: instrumentApiCall_def Let_def emitTelemetryEvent_def)
  qed
qed

text \<open>A call of 5000 ms against a target of 2000 ms: violated, \<open>warn\<close>, bucket \<open>high\<close>.\<close>

theorem instrumentApiCall_sla_witness:
  "0 < dc_slaTarget (di_domain test_instrumentor)
   \<and> snd (executeApiCall test_instrumentor ''/api/checkout'' ''POST'' slow_world)
       = Inr \<lparr> resp_status = 200, resp_success = True,
               resp_data = [(''message'', JStr ''Success'')] \<rparr>
   \<and> di_hasOnEvent test_instrumentor
   \<and> w_onEvent slow_world 0 = None
   \<and> real_of_int (w_endTime slow_world - w_startTime slow_world)
        > dc_slaTarget (di_domain test_instrumentor)
   \<and> out_result (instrumentApiCall test_instrumentor ''checkout''
        ''/api/checkout'' (Some ''POST'') None slow_world)
        = Inr \<lparr> ir_success = True, ir_duration = 5000, ir_error = None,
                ir_customMetrics = Some [(''sla_violated'', 1), (''response_status'', 200)] \<rparr>
   \<and> map ev_severity (out_events (instrumentApiCall test_instrumentor ''checkout''
        ''/api/checkout'' (Some ''POST'') None slow_world)) = [Some SevWarn]
   \<and> getSlaViolationSeverity test_instrumentor 5000 = ''high''"
proof -
  have t: "0 < dc_slaTarget (di_domain test_instrumentor)"
    by (simp add: test_instrumentor_def test_domain_def)
  have ok: "snd (executeApiCall test_instrumentor ''/api/checkout''
                   (case Some ''POST'' of None \<Rightarrow> ''GET'' | Some m \<Rightarrow> m) slow_world)
            = Inr \<lparr> resp_status = 200, resp_success = True,
                    resp_data = [(''message'', JStr ''Success'')] \<rparr>"
    by (simp add: executeApiCall_def test_instrumentor_def test_domain_def slow_world_def)
  have cb: "di_hasOnEvent test_instrumentor \<longrightarrow> w_onEvent slow_world 0 = None"
    by (simp add: slow_world_def)
  have d: "w_endTime slow_world - w_startTime slow_world = 5000"
    by (simp add: slow_world_def)
  have gt: "real_of_int (w_endTime slow_world - w_startTime slow_world)
        > dc_slaTarget (di_domain test_instrumentor)"
    by (simp add: d) (simp add: test_instrumentor_def test_domain_def)
  have on: "di_hasOnEvent test_instrumentor" "w_onEvent slow_world 0 = None"
    by (simp_all add: test_instrumentor_def slow_world_def)
  have sev: "getSlaViolationSeverity test_instrumentor 5000 = ''high''"
    using gt instrumentApiCall_sla [OF t ok cb, of "''checkout''" None]
    by (simp add: d) (simp add: test_instrumentor_def test_domain_def)
  have ok': "snd (executeApiCall test_instrumentor ''/api/checkout'' ''POST'' slow_world)
       = Inr \<lparr> resp_status = 200, resp_success = True,
               resp_data = [(''message'', JStr ''Success'')] \<rparr>"
    using ok by simp
  show ?thesis
    using t ok' gt on sev instrumentApiCall_sla [OF t ok cb, of "''checkout''" None]
    by (simp add: d)
qed

text \<open>
  C9, as amended. On an instrumentor built with the callback, \<open>recordBusinessMetric\<close> emits
  one event of type \<open>metric\<close> whose business impact is found by substring matching on the
  metric name (\<open>revenue\<close> or \<open>purchase\<close>: revenue; \<open>login\<close> or \<open>engagement\<close>: engagement;
  \<open>latency\<close> or \<open>performance\<close>: performance; otherwise reliability). For the name
  \<open>cart_value\<close> none of the substrings occurs, and the impact is \<open>reliability\<close>.
\<close>

theorem recordBusinessMetric_impact:
  assumes "di_hasOnEvent inst"
  shows "map ev_eventType (fst (recordBusinessMetric inst metricName val context_arg w)) = [EvMetric]
     \<and> map (bc_businessImpact \<circ> ev_businessContext)
           (fst (recordBusinessMetric inst metricName val context_arg w))
         = [if str_includes metricName ''revenue'' \<or> str_includes metricName ''purchase''
              then Revenue
            else if str_includes metricName ''login'' \<or> str_includes metricName ''engagement''
              then Engagement
            else if str_includes metricName ''latency'' \<or> str_includes metricName ''performance''
              then Performance
            else Reliability]
     \<and> map (bc_businessImpact \<circ> ev_businessContext)
           (fst (recordBusinessMetric inst ''cart_value'' val context_arg w)) = [Reliability]"
proof -
  have "getMetricBusinessImpact ''cart_value'' = Reliability"
    by (simp add: getMetricBusinessImpact_def)
  then show ?thesis
    using assms
    by (simp add: recordBusinessMetric_def Let_def emitTelemetryEvent_def)
       (simp add: getMetricBusinessImpact_def)
qed

text \<open>The metric of the test (\<open>revenue_per_user\<close>) and \<open>cart_value\<close>.\<close>

theorem recordBusinessMetric_impact_witness:
  "di_hasOnEvent test_instrumentor
   \<and> map ev_eventType (fst (recordBusinessMetric test_instrumentor ''revenue_per_user'' 50 None
         slow_world)) = [EvMetric]
   \<and> map (bc_businessImpact \<circ> ev_businessContext)
         (fst (recordBusinessMetric test_instrumentor ''revenue_per_user'' 50 None slow_world))
       = [Revenue]
   \<and> map (bc_businessImpact \<circ> ev_businessContext)
         (fst (recordBusinessMetric test_instrumentor ''cart_value'' 50 None slow_world))
       = [Reliability]"
proof -
  have h: "di_hasOnEvent test_instrumentor"
    by (simp add: test_instrumentor_def)
  show ?thesis
    using h recordBusinessMetric_impact [OF h, of "''revenue_per_user''" 50 None slow_world]
    by simp
qed

text \<open>
  The claim C9 as it is written expects \<open>revenue\<close> for \<open>cart_value\<close>; the emitted event says
  \<open>reliability\<close>.
\<close>

theorem recordBusinessMetric_cart_value:
  "map (bc_businessImpact \<circ> ev_businessContext)
     (fst (recordBusinessMetric test_instrumentor ''cart_value'' 129.99 None slow_world))
   = [Reliability]
   \<and> map (bc_businessImpact \<circ> ev_businessContext)
     (fst (recordBusinessMetric test_instrumentor ''cart_value'' 129.99 None slow_world))
   \<noteq> [Revenue]"
  by (simp add: recordBusinessMetric_def Let_def emitTelemetryEvent_def test_instrumentor_def
      getMetricBusinessImpact_def)

section \<open>Properties of the coordinator\<close>

subsection \<open>The environment of the tests\<close>

text \<open>
  The user agent and the URL of the tests match none of the patterns, so the session of
  \<open>test_env\<close> is a real user's and the test event is admitted.
\<close>

lemma test_userAgent_lower:
  "toLowerCase test_userAgent
     = ''mozilla/5.0 (windows nt 10.0; win64; x64) applewebkit/537.36''"
  by code_simp

lemma test_userAgent_no_bot_pattern:
  "list_ex (\<lambda>p. test p test_userAgent) botPatterns = False"
  unfolding botPatterns_def list_ex_Cons_iff list_ex_Nil_iff test.simps test_userAgent_lower
  by code_simp

lemma test_userAgent_not_mobile: "mobilePattern test_userAgent = False"
  unfolding mobilePattern_def test.simps test_userAgent_lower
  by code_simp





lemma test_env_not_bot: "isBotSession (new_Filter cfg) test_env context = Inr False"
  by (simp add: isBotSession_def new_Filter_def initializePatterns_def test_env_def
      test_userAgent_no_bot_pattern hasHeadlessIndicators_def hasAutomationIndicators_def
      hasUnusualSessionCharacteristics_def falsy_num_def)

lemma test_env_real_session: "isRealUserSession (new_Filter cfg) test_env now None = Inr True"
proof -
  have "\<exists>c. createDefaultContext test_env now = Inr c"
    by (simp add: createDefaultContext_def test_env_def)
  then obtain c where c: "createDefaultContext test_env now = Inr c" ..
  have w: "env_window test_env \<noteq> None" by (simp add: test_env_def)
  show ?thesis
    using w c test_env_not_bot[of cfg c]
    by (auto simp: isRealUserSession_def hasRealUserIndicators_def split: option.splits)
qed



lemma initializeDomainInstrumentors_returns:
  "env_navigator env = Some n \<Longrightarrow> snd (initializeDomainInstrumentors om env now ds m) = None"
  by (induction ds arbitrary: m) (auto simp: getCurrentUserContext_def)

lemma real_session_has_navigator:
  "isRealUserSession f env now None = Inr True \<Longrightarrow> \<exists>n. env_navigator env = Some n"
  by (auto simp: isRealUserSession_def createDefaultContext_def split: option.splits sum.splits)

lemma initialize_exporters [simp]:
  "om_exporters (st_state (initialize om env now otel)) = om_exporters om"
  by (auto simp: initialize_def Let_def split: sum.splits bool.splits option.splits prod.splits)

lemma initialize_events [simp]:
  "om_events (st_state (initialize om env now otel)) = om_events om"
  by (auto simp: initialize_def Let_def split: sum.splits bool.splits option.splits prod.splits)

lemma initialize_Filter [simp]:
  "om_Filter (st_state (initialize om env now otel)) = om_Filter om"
  by (auto simp: initialize_def Let_def split: sum.splits bool.splits option.splits prod.splits)

lemma initialize_config [simp]:
  "om_config (st_state (initialize om env now otel)) = om_config om"
  by (auto simp: initialize_def Let_def split: sum.splits bool.splits option.splits prod.splits)

lemma initialize_real_session:
  assumes "\<not> om_isInitialized om"
    and "isRealUserSession (om_Filter om) env now None = Inr True"
  shows "st_thrown (initialize om env now None) = None
       \<and> om_isInitialized (st_state (initialize om env now None))"
proof -
  obtain n where n: "env_navigator env = Some n"
    using real_session_has_navigator[OF assms(2)] by blast
  have i: "snd (initializeDomainInstrumentors om env now ds m) = None" for ds m
    using initializeDomainInstrumentors_returns[OF n] .
  have l: "snd (logConfiguration om' env now) = None" for om'
    using n by (simp add: logConfiguration_def getCurrentUserContext_def)
  show ?thesis
    using assms i[of "cfg_domains (om_config om)" "om_instrumentors om"]
    by (cases "initializeDomainInstrumentors om env now (cfg_domains (om_config om))
                 (om_instrumentors om)";
        cases "logConfiguration
                 (om \<lparr> om_instrumentors :=
                       fst (initializeDomainInstrumentors om env now (cfg_domains (om_config om))
                              (om_instrumentors om)),
                     om_isInitialized := True \<rparr>) env now")
       (use l[of "om \<lparr> om_instrumentors :=
                       fst (initializeDomainInstrumentors om env now (cfg_domains (om_config om))
                              (om_instrumentors om)),
                     om_isInitialized := True \<rparr>"] in
         \<open>auto simp: initialize_def Let_def\<close>)
qed

subsection \<open>Facts about the constructor and \<open>initialize\<close>\<close>

lemma new_ObservMetrics_fields [simp]:
  "om_isInitialized (new_ObservMetrics config) = False"
  "om_Filter (new_ObservMetrics config) = new_Filter (ca_filtering config)"
  "om_events (new_ObservMetrics config) = []"
  "om_instrumentors (new_ObservMetrics config) = []"
  "cfg_domains (om_config (new_ObservMetrics config)) = ca_domains config"
  "cfg_debug (om_config (new_ObservMetrics config)) = ca_debug config"
  "cfg_userContext (om_config (new_ObservMetrics config))
     = (case ca_userContext config of None \<Rightarrow> emptyPartialUserContext | Some u \<Rightarrow> u)"
  by (simp_all add: new_ObservMetrics_def Let_def)

lemma initialize_result:
  assumes "\<not> om_isInitialized om"
    and "isRealUserSession (om_Filter om) env now None = Inr True"
    and "\<not> cfg_debug (om_config om)"
  shows "initialize om env now None =
           \<lparr> st_state = om
               \<lparr> om_instrumentors :=
                   fst (initializeDomainInstrumentors om env now (cfg_domains (om_config om))
                          (om_instrumentors om)),
                 om_isInitialized := True \<rparr>,
             st_thrown = None, st_console = [], st_exports = [], st_destroyed = [] \<rparr>"
proof -
  obtain n where n: "env_navigator env = Some n"
    using real_session_has_navigator[OF assms(2)] by blast
  obtain m t where mt: "initializeDomainInstrumentors om env now (cfg_domains (om_config om))
                          (om_instrumentors om) = (m, t)"
    by (cases "initializeDomainInstrumentors om env now (cfg_domains (om_config om))
                 (om_instrumentors om)")
  have "t = None"
    using initializeDomainInstrumentors_returns[OF n, of om now "cfg_domains (om_config om)"
            "om_instrumentors om"] mt by simp
  with mt assms show ?thesis
    by (simp add: initialize_def Let_def)
qed

text \<open>The coordinator of the tests after \<open>initialize\<close>: both instrumentors are built.\<close>

lemma test_coordinator_eq:
  "test_coordinator =
     (new_ObservMetrics test_config)
       \<lparr> om_instrumentors :=
           [(''authentication'',
               \<lparr> di_domain = test_domains ! 0, di_userContext = test_context,
                 di_hasOnEvent = True \<rparr>),
            (''ecommerce'',
               \<lparr> di_domain = test_domains ! 1, di_userContext = test_context,
                 di_hasOnEvent = True \<rparr>)],
         om_isInitialized := True \<rparr>"
proof -
  have ctx: "getCurrentUserContext (new_ObservMetrics test_config) test_env 1000 = Inr test_context"
    by (simp add: getCurrentUserContext_def test_env_def overDefaults_def later_def
        test_context_def test_config_def)
  have dom: "ca_domains test_config = test_domains"
    by (simp add: test_config_def)
  have "initialize (new_ObservMetrics test_config) test_env 1000 None =
           \<lparr> st_state = (new_ObservMetrics test_config)
               \<lparr> om_instrumentors :=
                   fst (initializeDomainInstrumentors (new_ObservMetrics test_config) test_env 1000
                          (cfg_domains (om_config (new_ObservMetrics test_config)))
                          (om_instrumentors (new_ObservMetrics test_config))),
                 om_isInitialized := True \<rparr>,
             st_thrown = None, st_console = [], st_exports = [], st_destroyed = [] \<rparr>"
    by (rule initialize_result) (simp_all add: test_env_real_session test_config_def)
  moreover have "fst (initializeDomainInstrumentors (new_ObservMetrics test_config) test_env 1000
                          (cfg_domains (om_config (new_ObservMetrics test_config)))
                          (om_instrumentors (new_ObservMetrics test_config)))
        = [(''authentication'',
               \<lparr> di_domain = test_domains ! 0, di_userContext = test_context,
                 di_hasOnEvent = True \<rparr>),
            (''ecommerce'',
               \<lparr> di_domain = test_domains ! 1, di_userContext = test_context,
                 di_hasOnEvent = True \<rparr>)]"
    by (simp add: dom test_domains_def ctx)
  ultimately show ?thesis
    by (simp add: test_coordinator_def)
qed

lemma test_coordinator_fields [simp]:
  "om_isInitialized test_coordinator"
  "om_Filter test_coordinator = new_Filter test_filtering"
  "cfg_userContext (om_config test_coordinator)
     = \<lparr> pu_userId = None, pu_sessionId = Some ''test-session'',
         pu_userSegment = Some ''premium'', pu_isAuthenticated = Some True,
         pu_deviceType = Some Desktop, pu_customAttributes = None \<rparr>"
  "om_instrumentors test_coordinator =
     [(''authentication'',
         \<lparr> di_domain = test_domains ! 0, di_userContext = test_context, di_hasOnEvent = True \<rparr>),
      (''ecommerce'',
         \<lparr> di_domain = test_domains ! 1, di_userContext = test_context, di_hasOnEvent = True \<rparr>)]"
  by (simp_all add: test_coordinator_eq) (simp_all add: test_config_def)

lemma anonymous_coordinator_context [simp]:
  "cfg_userContext (om_config anonymous_coordinator) = emptyPartialUserContext"
  by (simp add: anonymous_coordinator_def anonymous_config_def test_config_def)

lemma anonymous_coordinator_initialized [simp]: "om_isInitialized anonymous_coordinator"
  using initialize_real_session [of "new_ObservMetrics anonymous_config" test_env 1000]
  by (simp add: anonymous_coordinator_def test_env_real_session)

lemma test_env_navigator: "env_navigator test_env \<noteq> None"
  by (simp add: test_env_def)

lemma enterprise_update_fields:
  "pu_sessionId enterprise_update = None" "pu_userSegment enterprise_update = Some ''enterprise''"
  by (simp_all add: enterprise_update_def emptyPartialUserContext_def)

lemma session_texts:
  "show_int 1000 = ''1000''"
  "show_int 2000 = ''2000''"
  by code_simp+

subsection \<open>What the statistics report about the user context\<close>

lemma stats_sessionId_eq:
  "env_navigator env \<noteq> None \<Longrightarrow>
   stats_sessionId (getStats om env now) =
     Inr (case pu_sessionId (cfg_userContext (om_config om)) of
            Some sid \<Rightarrow> sid | None \<Rightarrow> ''session_'' @ show_int now)"
  by (auto simp: stats_sessionId_def getStats_def getCurrentUserContext_def overDefaults_def
      split: option.splits)

lemma stats_userSegment_eq:
  "env_navigator env \<noteq> None \<Longrightarrow>
   stats_userSegment (getStats om env now) =
     Inr (case pu_userSegment (cfg_userContext (om_config om)) of
            Some seg \<Rightarrow> seg | None \<Rightarrow> ''anonymous'')"
  by (auto simp: stats_userSegment_def getStats_def getCurrentUserContext_def overDefaults_def
      split: option.splits)

lemma updateUserContext_config:
  "cfg_userContext (om_config (st_state (updateUserContext om env now newContext)))
     = mergePartial (cfg_userContext (om_config om)) newContext"
  by (simp add: updateUserContext_def Let_def split: prod.splits)

text \<open>
  What the statistics report around \<open>updateUserContext\<close> with a partial context that does
  not mention \<open>sessionId\<close>: the new segment when the partial context gives one, and the
  session id the coordinator holds (supplied at construction or by an earlier update); when
  it holds none, \<open>session_\<close> followed by the clock at that call of \<open>getStats\<close>.
\<close>

lemma updateUserContext_reported_context:
  assumes "pu_sessionId newContext = None" and "env_navigator env' \<noteq> None"
  shows "stats_sessionId (getStats om env' now0) =
           Inr (case pu_sessionId (cfg_userContext (om_config om)) of
                  Some sid \<Rightarrow> sid | None \<Rightarrow> ''session_'' @ show_int now0)
       \<and> stats_sessionId
           (getStats (st_state (updateUserContext om env now newContext)) env' now1) =
           Inr (case pu_sessionId (cfg_userContext (om_config om)) of
                  Some sid \<Rightarrow> sid | None \<Rightarrow> ''session_'' @ show_int now1)
       \<and> stats_userSegment
           (getStats (st_state (updateUserContext om env now newContext)) env' now1) =
           Inr (case pu_userSegment newContext of
                  Some seg \<Rightarrow> seg
                | None \<Rightarrow>
                    (case pu_userSegment (cfg_userContext (om_config om)) of
                       Some seg \<Rightarrow> seg | None \<Rightarrow> ''anonymous''))"
  using assms
  by (simp add: stats_sessionId_eq stats_userSegment_eq updateUserContext_config
      mergePartial_def later_def split: option.splits)

text \<open>
  The coordinator of the tests, whose configuration supplies \<open>test-session\<close>: the session id
  is the same before and after the update.
\<close>

lemma updateUserContext_supplied_sessionId_kept:
  "pu_sessionId enterprise_update = None
   \<and> env_navigator test_env \<noteq> None
   \<and> stats_sessionId (getStats test_coordinator test_env 1000) = Inr ''test-session''
   \<and> stats_sessionId
       (getStats (st_state (updateUserContext test_coordinator test_env 1500 enterprise_update))
          test_env 2000) = Inr ''test-session''
   \<and> stats_userSegment
       (getStats (st_state (updateUserContext test_coordinator test_env 1500 enterprise_update))
          test_env 2000) = Inr ''enterprise''"
  using enterprise_update_fields test_env_navigator
    updateUserContext_reported_context [OF enterprise_update_fields(1) test_env_navigator,
      of test_coordinator 1000 test_env 1500 2000]
  by simp

text \<open>
  C6. After \<open>updateUserContext\<close> with a partial context that does not mention \<open>sessionId\<close>,
  \<open>getStats().userContext.sessionId\<close> is to be what it was before the update, whether or
  not a session id was supplied at construction. On the initialized coordinator built
  without one, the statistics read at clock 1000 report \<open>session_1000\<close> and, after the
  update, those read at clock 2000 report \<open>session_2000\<close>.
\<close>

theorem updateUserContext_sessionId_changes:
  "om_isInitialized anonymous_coordinator
   \<and> pu_sessionId enterprise_update = None
   \<and> stats_sessionId (getStats anonymous_coordinator test_env 1000) = Inr ''session_1000''
   \<and> stats_sessionId
       (getStats (st_state (updateUserContext anonymous_coordinator test_env 1500 enterprise_update))
          test_env 2000) = Inr ''session_2000''"
  using enterprise_update_fields test_env_navigator
  by (simp add: stats_sessionId_eq updateUserContext_config mergePartial_def later_def
      emptyPartialUserContext_def session_texts)

text \<open>
  C7. On a coordinator that is already initialized, \<open>initialize\<close> writes one warning to the
  console and returns: it does not throw, and the coordinator (instrumentors, event log,
  exporters, initialized flag and all the rest) is unchanged.
\<close>

theorem initialize_idempotent:
  assumes "om_isInitialized om"
  shows "initialize om env now otel =
           \<lparr> st_state = om, st_thrown = None,
             st_console = [ConsoleWarn ''[ObservMetrics] Already initialized''],
             st_exports = [], st_destroyed = [] \<rparr>"
  using assms by (simp add: initialize_def)

text \<open>A second \<open>initialize\<close> on the initialized coordinator of the tests.\<close>

theorem initialize_idempotent_witness:
  "om_isInitialized test_coordinator
   \<and> initialize test_coordinator test_env 2000 None =
       \<lparr> st_state = test_coordinator, st_thrown = None,
         st_console = [ConsoleWarn ''[ObservMetrics] Already initialized''],
         st_exports = [], st_destroyed = [] \<rparr>"
proof -
  have h: "om_isInitialized test_coordinator" by simp
  show ?thesis
    using h initialize_idempotent [OF h, of test_env 2000 None] by simp
qed

subsection \<open>Substrings\<close>

lemma startsWith_append: "startsWith (p @ s) p"
  by (induction p) auto

lemma str_includes_here: "str_includes (b @ c) b"
proof (cases "b @ c")
  case Nil
  then show ?thesis by simp
next
  case (Cons a list)
  have "startsWith (b @ c) b" by (rule startsWith_append)
  with Cons show ?thesis by simp
qed

lemma str_includes_prepend: "str_includes s b \<Longrightarrow> str_includes (a @ s) b"
  by (induction a) auto

lemma str_includes_join: "n \<in> set names \<Longrightarrow> str_includes (join sep names) n"
proof (induction sep names rule: join.induct)
  case (1 sep)
  then show ?case by simp
next
  case (2 sep x)
  then show ?case using str_includes_here[of x "[]"] by simp
next
  case (3 sep x y rest)
  show ?case
  proof (cases "n = x")
    case True
    then show ?thesis using str_includes_here[of x "sep @ join sep (y # rest)"] by simp
  next
    case False
    with 3 have "str_includes (join sep (y # rest)) n" by simp
    then have "str_includes (x @ sep @ join sep (y # rest)) n"
      using str_includes_prepend[of "join sep (y # rest)" n "x @ sep"] by simp
    then show ?thesis by simp
  qed
qed

text \<open>
  C8. For a name with no instrumentor, \<open>getDomainInstrumentor\<close> throws an \<open>Error\<close> whose
  message contains the requested name and every name that has an instrumentor; it returns
  no instrumentor. For a name with an instrumentor it returns that instrumentor.
\<close>

theorem getDomainInstrumentor_spec:
  "(domainName \<notin> fst ` set (om_instrumentors om) \<longrightarrow>
      getDomainInstrumentor om domainName stack =
        Inl (Thrown \<lparr> err_name = ''Error'',
                      err_message =
                        ''Domain instrumentor not found: '' @ domainName
                          @ ''. Available domains: ''
                          @ join '', '' (map fst (om_instrumentors om)),
                      err_stack = stack \<rparr>)
      \<and> str_includes
           (''Domain instrumentor not found: '' @ domainName @ ''. Available domains: ''
              @ join '', '' (map fst (om_instrumentors om)))
           domainName
      \<and> (\<forall>n \<in> fst ` set (om_instrumentors om).
            str_includes
              (''Domain instrumentor not found: '' @ domainName @ ''. Available domains: ''
                 @ join '', '' (map fst (om_instrumentors om)))
              n))
   \<and> (\<forall>instrumentor. map_of (om_instrumentors om) domainName = Some instrumentor \<longrightarrow>
        getDomainInstrumentor om domainName stack = Inr instrumentor)"
proof -
  have a: "domainName \<notin> fst ` set (om_instrumentors om) \<Longrightarrow>
           map_of (om_instrumentors om) domainName = None"
    by (simp add: map_of_eq_None_iff)
  have b: "str_includes (p @ domainName @ q) domainName" for p q
    using str_includes_prepend[OF str_includes_here[of domainName q], of p] .
  have c: "n \<in> fst ` set (om_instrumentors om) \<Longrightarrow>
           str_includes (p @ join '', '' (map fst (om_instrumentors om))) n" for n p
    using str_includes_prepend[OF str_includes_join[of n "map fst (om_instrumentors om)" "'', ''"], of p]
    by simp
  show ?thesis
    using a b[of "''Domain instrumentor not found: ''"
                 "''. Available domains: '' @ join '', '' (map fst (om_instrumentors om))"]
      c[of _ "''Domain instrumentor not found: '' @ domainName @ ''. Available domains: ''"]
    by (auto simp: getDomainInstrumentor_def)
qed

text \<open>
  The coordinator of the tests, asked for \<open>nonexistent\<close> and for \<open>authentication\<close>.
\<close>

theorem getDomainInstrumentor_spec_witness:
  "''nonexistent'' \<notin> fst ` set (om_instrumentors test_coordinator)
   \<and> getDomainInstrumentor test_coordinator ''nonexistent'' None =
       Inl (Thrown \<lparr> err_name = ''Error'',
                     err_message =
                       ''Domain instrumentor not found: nonexistent. Available domains: authentication, ecommerce'',
                     err_stack = None \<rparr>)
   \<and> str_includes
        ''Domain instrumentor not found: nonexistent. Available domains: authentication, ecommerce''
        ''nonexistent''
   \<and> ''authentication'' \<in> fst ` set (om_instrumentors test_coordinator)
   \<and> str_includes
        ''Domain instrumentor not found: nonexistent. Available domains: authentication, ecommerce''
        ''authentication''
   \<and> map_of (om_instrumentors test_coordinator) ''authentication'' =
        Some \<lparr> di_domain = test_domains ! 0, di_userContext = test_context,
               di_hasOnEvent = True \<rparr>
   \<and> getDomainInstrumentor test_coordinator ''authentication'' None =
        Inr \<lparr> di_domain = test_domains ! 0, di_userContext = test_context,
              di_hasOnEvent = True \<rparr>"
proof -
  have a: "''nonexistent'' \<notin> fst ` set (om_instrumentors test_coordinator)"
    by simp
  have b: "''authentication'' \<in> fst ` set (om_instrumentors test_coordinator)"
    by simp
  have c: "map_of (om_instrumentors test_coordinator) ''authentication'' =
        Some \<lparr> di_domain = test_domains ! 0, di_userContext = test_context,
               di_hasOnEvent = True \<rparr>"
    by simp
  have e: "''Domain instrumentor not found: '' @ ''nonexistent'' @ ''. Available domains: ''
             @ join '', '' (map fst (om_instrumentors test_coordinator))
           = ''Domain instrumentor not found: nonexistent. Available domains: authentication, ecommerce''"
    by simp
  have n: "getDomainInstrumentor test_coordinator ''nonexistent'' None =
        Inl (Thrown \<lparr> err_name = ''Error'',
                      err_message =
                        ''Domain instrumentor not found: '' @ ''nonexistent''
                          @ ''. Available domains: ''
                          @ join '', '' (map fst (om_instrumentors test_coordinator)),
                      err_stack = None \<rparr>)
      \<and> str_includes
           (''Domain instrumentor not found: '' @ ''nonexistent'' @ ''. Available domains: ''
              @ join '', '' (map fst (om_instrumentors test_coordinator)))
           ''nonexistent''
      \<and> (\<forall>n \<in> fst ` set (om_instrumentors test_coordinator).
            str_includes
              (''Domain instrumentor not found: '' @ ''nonexistent'' @ ''. Available domains: ''
                 @ join '', '' (map fst (om_instrumentors test_coordinator)))
              n)"
    using a getDomainInstrumentor_spec [of "''nonexistent''" test_coordinator None] by blast
  have y: "getDomainInstrumentor test_coordinator ''authentication'' None =
        Inr \<lparr> di_domain = test_domains ! 0, di_userContext = test_context,
              di_hasOnEvent = True \<rparr>"
    using c getDomainInstrumentor_spec [of "''authentication''" test_coordinator None] by blast
  from n b have "str_includes
              (''Domain instrumentor not found: '' @ ''nonexistent'' @ ''. Available domains: ''
                 @ join '', '' (map fst (om_instrumentors test_coordinator)))
              ''authentication''" by blast
  with n a b c y show ?thesis
    unfolding e by blast
qed

subsection \<open>Exporters\<close>


lemma updateUserContext_exporters [simp]:
  "om_exporters (st_state (updateUserContext om env now newContext)) = om_exporters om"
  by (simp add: updateUserContext_def Let_def split: prod.splits)

lemma addFilter_exporters [simp]:
  "om_exporters (addFilter om flt) = om_exporters om"
  by (simp add: addFilter_def)



end
